theory Spec2Isabelle
  imports Main "HOL-Library.Word"
begin

section \<open>Common ground: addresses, unsigned 256-bit values, aborts\<close>

text \<open>
  An \<open>address\<close> is a 160-bit word; \<open>address(0)\<close> is the word \<open>0\<close>.
  A \<open>uint256\<close> is modelled as a natural number; every operation that can leave the range
  \<open>0 ..< 2 ^ 256\<close> has the source's behaviour written out (abort for the checked SafeMath
  operations, wrap-around for the unchecked exponentiation \<open>10 ** d\<close>).

  A transaction that aborts is rolled back as a whole, so an abort is a value \<open>Inl e\<close>
  and carries no state.
\<close>

type_synonym address = "160 word"

datatype error =
    PreCondition     \<comment> \<open>\<open>pre_cond(..)\<close> not met\<close>
  | Require          \<comment> \<open>\<open>require(..)\<close> not met\<close>
  | Assert           \<comment> \<open>\<open>assert(..)\<close> not met\<close>
  | MathOverflow     \<comment> \<open>SafeMath \<open>add\<close> or \<open>mul\<close> out of range\<close>
  | MathUnderflow    \<comment> \<open>SafeMath \<open>sub\<close> below zero\<close>
  | DivisionByZero   \<comment> \<open>division by zero\<close>
  | OutOfBounds      \<comment> \<open>array index out of range\<close>
  | OutOfGas         \<comment> \<open>recursion deeper than the gas allows\<close>
  | CallFailed       \<comment> \<open>a call of another contract reverted, or its target has no code\<close>

type_synonym 'a result = "error + 'a"

definition bindE :: "'a result \<Rightarrow> ('a \<Rightarrow> 'b result) \<Rightarrow> 'b result" where
  "bindE m f = (case m of Inl e \<Rightarrow> Inl e | Inr x \<Rightarrow> f x)"

definition MAX_UINT256 :: nat where
  "MAX_UINT256 = 2 ^ 256 - 1"

text \<open>
  Modelled from the spec: the SafeMath library (\<open>dependencies/SafeMath.sol\<close> for the Vault,
  \<open>@openzeppelin/contracts/math/SafeMath.sol\<close> for the ValueInterpreter) is not among the
  sources. The spec, section 7, "ArithmeticViolation (overflow, division by zero, fee exceeding
  GAV) -- fatal; aborts the entire operation", and section 4.4, "all arithmetic is unsigned
  fixed-point integer math ... truncation always rounds toward zero (floor)", fix what its
  four operations do.
\<close>

definition safe_add :: "nat \<Rightarrow> nat \<Rightarrow> nat result" where
  "safe_add a b = (if a + b \<le> MAX_UINT256 then Inr (a + b) else Inl MathOverflow)"

definition safe_sub :: "nat \<Rightarrow> nat \<Rightarrow> nat result" where
  "safe_sub a b = (if b \<le> a then Inr (a - b) else Inl MathUnderflow)"

definition safe_mul :: "nat \<Rightarrow> nat \<Rightarrow> nat result" where
  "safe_mul a b = (if a * b \<le> MAX_UINT256 then Inr (a * b) else Inl MathOverflow)"

definition safe_div :: "nat \<Rightarrow> nat \<Rightarrow> nat result" where
  "safe_div a b = (if b = 0 then Inl DivisionByZero else Inr (a div b))"

text \<open>The unchecked \<open>10 ** d\<close> of Solidity 0.4 and 0.6: the power modulo \<open>2 ^ 256\<close>.\<close>

definition pow10 :: "nat \<Rightarrow> nat" where
  "pow10 d = (10 ^ d) mod (2 ^ 256)"


section \<open>ValueInterpreter\<close>

text \<open>
  The price feeds and the tokens are external contracts, given by the caller as addresses.
  What the interpreter reads from them is a record of functions, indexed by the address of
  the contract that is called: \<open>IPrimitivePriceFeed.isSupportedAsset\<close>, \<open>getLiveRate\<close>,
  \<open>getCanonicalRate\<close> (its third result, a timestamp, is dropped by the interpreter),
  \<open>IDerivativePriceFeed.isSupportedAsset\<close>, \<open>getRatesToUnderlyings\<close>, and
  \<open>IERC20Extended.decimals\<close>. Each of these is a high-level call: it aborts the whole
  valuation when the called contract reverts or when there is no code at the address. Such
  a call returns \<open>Inl CallFailed\<close> (or whatever abort the callee chooses).
\<close>

record Oracles =
  primIsSupportedAsset :: "address \<Rightarrow> address \<Rightarrow> bool result"
  getLiveRate :: "address \<Rightarrow> address \<Rightarrow> address \<Rightarrow> (nat \<times> bool) result"
  getCanonicalRate :: "address \<Rightarrow> address \<Rightarrow> address \<Rightarrow> (nat \<times> bool) result"
  derivIsSupportedAsset :: "address \<Rightarrow> address \<Rightarrow> bool result"
  getRatesToUnderlyings :: "address \<Rightarrow> address \<Rightarrow> (address list \<times> nat list) result"
  decimals :: "address \<Rightarrow> nat result"

definition RATE_PRECISION :: nat where
  "RATE_PRECISION = 18"

definition calcDenormalizedConversionAmount ::
  "Oracles \<Rightarrow> address \<Rightarrow> nat \<Rightarrow> address \<Rightarrow> nat \<Rightarrow> nat result" where
  "calcDenormalizedConversionAmount E baseAsset baseAssetAmount quoteAsset normalizedRate =
     bindE (safe_mul normalizedRate baseAssetAmount) (\<lambda>x.
     bindE (decimals E quoteAsset) (\<lambda>quoteDecimals.
     bindE (safe_mul x (pow10 quoteDecimals)) (\<lambda>y.
     bindE (decimals E baseAsset) (\<lambda>baseDecimals.
     bindE (safe_add RATE_PRECISION baseDecimals) (\<lambda>e.
     safe_div y (pow10 e))))))"

definition calcPrimitiveValue ::
  "Oracles \<Rightarrow> address \<Rightarrow> address \<Rightarrow> nat \<Rightarrow> address \<Rightarrow> bool \<Rightarrow> (nat \<times> bool) result" where
  "calcPrimitiveValue E primitivePriceFeed primitive amount quoteAsset useLiveRate =
     bindE (if useLiveRate then getLiveRate E primitivePriceFeed primitive quoteAsset
            else getCanonicalRate E primitivePriceFeed primitive quoteAsset) (\<lambda>(rate, isValid).
     bindE (calcDenormalizedConversionAmount E primitive amount quoteAsset rate) (\<lambda>value.
     Inr (value, isValid)))"

text \<open>
  The loop of \<open>__calcDerivativeValue\<close>, with the valuation of one underlying passed in as
  \<open>valueOf\<close>. It walks \<open>underlyings\<close> and \<open>rates\<close> together; reading \<open>rates[i]\<close> beyond
  the end of \<open>rates\<close> aborts. The accumulator is \<open>(value_, isValid_)\<close>.
\<close>

fun derivativeLoop ::
  "Oracles \<Rightarrow> (address \<Rightarrow> nat \<Rightarrow> (nat \<times> bool) result) \<Rightarrow> address \<Rightarrow> nat \<Rightarrow>
   address list \<Rightarrow> nat list \<Rightarrow> nat \<times> bool \<Rightarrow> (nat \<times> bool) result" where
  "derivativeLoop E valueOf derivative amount [] rates acc = Inr acc"
| "derivativeLoop E valueOf derivative amount (u # us) [] acc = Inl OutOfBounds"
| "derivativeLoop E valueOf derivative amount (u # us) (r # rs) (value, isValid) =
     bindE (calcDenormalizedConversionAmount E derivative amount u r) (\<lambda>underlyingAmount.
     bindE (valueOf u underlyingAmount) (\<lambda>(underlyingValue, underlyingIsValid).
     bindE (safe_add value underlyingValue) (\<lambda>value'.
     derivativeLoop E valueOf derivative amount us rs
       (value', if \<not> underlyingIsValid then False else isValid))))"

text \<open>
  \<open>__calcAssetValue\<close> and \<open>__calcDerivativeValue\<close> call each other, and nothing in the
  code bounds the depth (a derivative may list itself as an underlying); on chain the
  recursion ends when the gas is used up. The first argument after the oracles is that
  bound: each call of \<open>__calcDerivativeValue\<close> uses one unit.

  The conditions of \<open>__calcAssetValue\<close> are evaluated left to right and stop at the first
  operand that decides them, so \<open>isSupportedAsset\<close> is called on the quote asset only when
  no address and not the amount is zero, and the derivative price feed is called only when
  its address is not zero.
\<close>

fun calcAssetValue ::
  "Oracles \<Rightarrow> nat \<Rightarrow> address \<Rightarrow> address \<Rightarrow> address \<Rightarrow> nat \<Rightarrow> address \<Rightarrow> bool \<Rightarrow>
   (nat \<times> bool) result"
and calcDerivativeValue ::
  "Oracles \<Rightarrow> nat \<Rightarrow> address \<Rightarrow> address \<Rightarrow> address \<Rightarrow> nat \<Rightarrow> address \<Rightarrow> bool \<Rightarrow>
   (nat \<times> bool) result" where
  "calcAssetValue E gas primitivePriceFeed derivativePriceFeed baseAsset amount quoteAsset useLiveRate =
     bindE (if primitivePriceFeed = 0 \<or> baseAsset = 0 \<or> quoteAsset = 0 \<or> amount = 0
            then Inr True
            else bindE (primIsSupportedAsset E primitivePriceFeed quoteAsset)
                   (\<lambda>supported. Inr (\<not> supported))) (\<lambda>unanswerable.
     if unanswerable then Inr (0, False)
     else
       bindE (primIsSupportedAsset E primitivePriceFeed baseAsset) (\<lambda>isPrimitive.
       if isPrimitive
       then calcPrimitiveValue E primitivePriceFeed baseAsset amount quoteAsset useLiveRate
       else
         bindE (if derivativePriceFeed \<noteq> 0
                then derivIsSupportedAsset E derivativePriceFeed baseAsset
                else Inr False) (\<lambda>isDerivative.
         if isDerivative
         then calcDerivativeValue E gas primitivePriceFeed derivativePriceFeed baseAsset amount
                quoteAsset useLiveRate
         else Inr (0, False))))"
| "calcDerivativeValue E 0 primitivePriceFeed derivativePriceFeed derivative amount quoteAsset
     useLiveRate = Inl OutOfGas"
| "calcDerivativeValue E (Suc gas) primitivePriceFeed derivativePriceFeed derivative amount quoteAsset
     useLiveRate =
     bindE (getRatesToUnderlyings E derivativePriceFeed derivative) (\<lambda>(underlyings, rates).
     derivativeLoop E
       (\<lambda>u a. calcAssetValue E gas primitivePriceFeed derivativePriceFeed u a quoteAsset useLiveRate)
       derivative amount underlyings rates (0, True))"

definition calcCanonicalAssetValue ::
  "Oracles \<Rightarrow> nat \<Rightarrow> address \<Rightarrow> address \<Rightarrow> address \<Rightarrow> nat \<Rightarrow> address \<Rightarrow> (nat \<times> bool) result" where
  "calcCanonicalAssetValue E gas primitivePriceFeed derivativePriceFeed baseAsset amount quoteAsset =
     calcAssetValue E gas primitivePriceFeed derivativePriceFeed baseAsset amount quoteAsset False"

definition calcLiveAssetValue ::
  "Oracles \<Rightarrow> nat \<Rightarrow> address \<Rightarrow> address \<Rightarrow> address \<Rightarrow> nat \<Rightarrow> address \<Rightarrow> (nat \<times> bool) result" where
  "calcLiveAssetValue E gas primitivePriceFeed derivativePriceFeed baseAsset amount quoteAsset =
     calcAssetValue E gas primitivePriceFeed derivativePriceFeed baseAsset amount quoteAsset True"


section \<open>Vault\<close>

subsection \<open>Storage\<close>

record Calculations =
  gav :: nat
  managementReward :: nat
  performanceReward :: nat
  unclaimedRewards :: nat
  nav :: nat
  sharePrice :: nat
  totalSupply :: nat
  timestamp :: nat

text \<open>
  The storage of the contract that the modelled functions read or write: \<open>balances\<close> and
  \<open>totalSupply\<close> of the inherited share token, \<open>owner\<close> of \<open>Owned\<close>, and the Vault's own
  \<open>baseUnitsPerShare\<close>, \<open>referenceAsset\<close>, \<open>prospectus.subscriptionFee\<close> and
  \<open>atLastPayout\<close>. A Solidity mapping has the value 0 at every key never written, so
  \<open>balances\<close> is a total function. The field \<open>totalSupply\<close> of the snapshot is written
  \<open>Calculations.totalSupply\<close>; the unqualified name is the share token's.
\<close>

record Vault =
  balances :: "address \<Rightarrow> nat"
  totalSupply :: nat
  owner :: address
  baseUnitsPerShare :: nat
  referenceAsset :: address
  subscriptionFee :: nat
  atLastPayout :: Calculations

subsection \<open>The contracts the Vault calls\<close>

text \<open>
  The modules (rewards, participation, universe), the price feeds and the asset tokens are
  other contracts. \<open>'w\<close> is the state of everything outside the Vault. The record holds
  the call context (\<open>this\<close>, \<open>msg.sender\<close>, \<open>now\<close>) and, per interface function, what the
  call returns. \<open>universe\<close> lists \<open>(assetAt(i), priceFeedAt(i))\<close> for
  \<open>i < numAssignedAssets()\<close>.

  \<open>transfer\<close> and \<open>transferFrom\<close> run code of the token, which may call back into the
  Vault before it returns. They are given the Vault's storage as it stands when the call is
  made, which is what such a reentrant call reads, and return the success flag and the
  outside state after the call. Calls to the logger are left out: they change neither the
  Vault's storage nor any value returned.
\<close>

record 'w Env =
  this :: address
  msg_sender :: address
  now :: nat
  calculateManagementReward :: "nat \<Rightarrow> nat \<Rightarrow> nat"
  calculatePerformanceReward :: "nat \<Rightarrow> nat \<Rightarrow> nat"
  isSubscriberPermitted :: "address \<Rightarrow> nat \<Rightarrow> bool"
  isSubscribePermitted :: "address \<Rightarrow> nat \<Rightarrow> bool"
  isRedeemPermitted :: "address \<Rightarrow> nat \<Rightarrow> bool"
  universe :: "(address \<times> address) list"
  getQuoteAsset :: "address \<Rightarrow> address"
  getPrice :: "address \<Rightarrow> address \<Rightarrow> nat"
  getDecimals :: "address \<Rightarrow> nat"
  balanceOf :: "'w \<Rightarrow> address \<Rightarrow> address \<Rightarrow> nat"
  transfer :: "'w \<Rightarrow> Vault \<Rightarrow> address \<Rightarrow> address \<Rightarrow> nat \<Rightarrow> bool \<times> 'w"
  transferFrom :: "'w \<Rightarrow> Vault \<Rightarrow> address \<Rightarrow> address \<Rightarrow> address \<Rightarrow> nat \<Rightarrow> bool \<times> 'w"

definition SUBSCRIBE_THRESHOLD :: nat where
  "SUBSCRIBE_THRESHOLD = 1000"

definition SUBSCRIBE_FEE_DIVISOR :: nat where
  "SUBSCRIBE_FEE_DIVISOR = 100000"

subsection \<open>Pre- and postconditions\<close>

definition isZero :: "nat \<Rightarrow> bool" where
  "isZero x = (0 = x)"

definition isPastZero :: "nat \<Rightarrow> bool" where
  "isPastZero x = (0 < x)"

definition balancesOfHolderAtLeast :: "Vault \<Rightarrow> address \<Rightarrow> nat \<Rightarrow> bool" where
  "balancesOfHolderAtLeast v ofHolder x = (balances v ofHolder \<ge> x)"

definition atLeastThreshold :: "nat \<Rightarrow> bool" where
  "atLeastThreshold x = (x \<ge> SUBSCRIBE_THRESHOLD)"

text \<open>
  Modelled from the spec: \<open>Owned.sol\<close>, which declares \<open>owner\<close> and \<open>isOwner\<close>, is not
  among the sources; section 4.4 has fee settlement "gated to the fund owner/manager".
\<close>

definition isOwner :: "'w Env \<Rightarrow> Vault \<Rightarrow> bool" where
  "isOwner X v = (msg_sender X = owner v)"

subsection \<open>Accounting\<close>

definition calcValuePerShare :: "Vault \<Rightarrow> nat \<Rightarrow> nat result" where
  "calcValuePerShare v value =
     (if \<not> isPastZero (totalSupply v) then Inl PreCondition
      else bindE (safe_mul value (baseUnitsPerShare v)) (\<lambda>x. safe_div x (totalSupply v)))"

definition calcNav :: "nat \<Rightarrow> nat \<Rightarrow> nat result" where
  "calcNav gav' unclaimedRewards' = safe_sub gav' unclaimedRewards'"

definition calcUnclaimedRewards :: "'w Env \<Rightarrow> Vault \<Rightarrow> nat \<Rightarrow> (nat \<times> nat \<times> nat) result" where
  "calcUnclaimedRewards X v gav' =
     bindE (safe_sub (now X) (timestamp (atLastPayout v))) (\<lambda>timeDifference.
     bindE (Inr (calculateManagementReward X timeDifference gav')) (\<lambda>managementReward.
     bindE (if totalSupply v \<noteq> 0
            then bindE (calcValuePerShare v gav') (\<lambda>currSharePrice.
                   if currSharePrice > sharePrice (atLastPayout v)
                   then Inr (calculatePerformanceReward X
                               (currSharePrice - sharePrice (atLastPayout v)) (totalSupply v))
                   else Inr 0)
            else Inr 0) (\<lambda>performanceReward.
     bindE (safe_add managementReward performanceReward) (\<lambda>unclaimedRewards.
     Inr (managementReward, performanceReward, unclaimedRewards)))))"

text \<open>The loop of \<open>calcGav\<close> over the assigned assets; the last argument is \<open>gav\<close> so far.\<close>

fun calcGavLoop :: "'w Env \<Rightarrow> 'w \<Rightarrow> Vault \<Rightarrow> (address \<times> address) list \<Rightarrow> nat \<Rightarrow> nat result" where
  "calcGavLoop X w v [] gav' = Inr gav'"
| "calcGavLoop X w v ((ofAsset, priceFeed) # rest) gav' =
     (let assetHoldings = balanceOf X w ofAsset (this X);
          assetDecimals = getDecimals X ofAsset;
          quoteAsset = getQuoteAsset X priceFeed
      in if referenceAsset v \<noteq> quoteAsset then Inl Assert
         else
           let assetPrice = (if ofAsset = quoteAsset then pow10 assetDecimals
                             else getPrice X priceFeed ofAsset)
           in bindE (safe_mul assetHoldings assetPrice) (\<lambda>x.
              bindE (safe_div x (pow10 assetDecimals)) (\<lambda>y.
              bindE (safe_add gav' y) (\<lambda>gav''.
              calcGavLoop X w v rest gav''))))"

definition calcGav :: "'w Env \<Rightarrow> 'w \<Rightarrow> Vault \<Rightarrow> nat result" where
  "calcGav X w v = calcGavLoop X w v (universe X) 0"

definition performCalculations ::
  "'w Env \<Rightarrow> 'w \<Rightarrow> Vault \<Rightarrow> (nat \<times> nat \<times> nat \<times> nat \<times> nat \<times> nat) result" where
  "performCalculations X w v =
     bindE (calcGav X w v) (\<lambda>gav.
     bindE (calcUnclaimedRewards X v gav) (\<lambda>(managementReward, performanceReward, unclaimedRewards).
     bindE (calcNav gav unclaimedRewards) (\<lambda>nav.
     bindE (if isPastZero (totalSupply v) then calcValuePerShare v nav
            else Inr (baseUnitsPerShare v)) (\<lambda>sharePrice.
     Inr (gav, managementReward, performanceReward, unclaimedRewards, nav, sharePrice)))))"

definition priceForNumShares :: "'w Env \<Rightarrow> 'w \<Rightarrow> Vault \<Rightarrow> nat \<Rightarrow> nat result" where
  "priceForNumShares X w v numShares =
     bindE (performCalculations X w v) (\<lambda>(_, _, _, _, _, sharePrice).
     bindE (safe_mul numShares sharePrice) (\<lambda>x. safe_div x (baseUnitsPerShare v)))"

definition subscribePriceForNumShares :: "'w Env \<Rightarrow> 'w \<Rightarrow> Vault \<Rightarrow> nat \<Rightarrow> nat result" where
  "subscribePriceForNumShares X w v numShares =
     bindE (priceForNumShares X w v numShares) (\<lambda>price.
     bindE (safe_sub SUBSCRIBE_FEE_DIVISOR (subscriptionFee v)) (\<lambda>f.
     bindE (safe_mul price f) (\<lambda>x. safe_div x SUBSCRIBE_FEE_DIVISOR)))"

subsection \<open>Share ledger\<close>

definition addShares :: "Vault \<Rightarrow> address \<Rightarrow> nat \<Rightarrow> Vault result" where
  "addShares v recipient numShares =
     bindE (safe_add (balances v recipient) numShares) (\<lambda>b.
     Inr (v\<lparr>balances := (balances v)(recipient := b)\<rparr>))"

definition subShares :: "Vault \<Rightarrow> address \<Rightarrow> nat \<Rightarrow> Vault result" where
  "subShares v recipient numShares =
     bindE (safe_sub (balances v recipient) numShares) (\<lambda>b.
     Inr (v\<lparr>balances := (balances v)(recipient := b)\<rparr>))"

definition createShares :: "Vault \<Rightarrow> address \<Rightarrow> nat \<Rightarrow> Vault result" where
  "createShares v recipient numShares =
     bindE (safe_add (totalSupply v) numShares) (\<lambda>ts.
     addShares (v\<lparr>totalSupply := ts\<rparr>) recipient numShares)"

definition annihilateShares :: "Vault \<Rightarrow> address \<Rightarrow> nat \<Rightarrow> Vault result" where
  "annihilateShares v recipient numShares =
     bindE (safe_sub (totalSupply v) numShares) (\<lambda>ts.
     subShares (v\<lparr>totalSupply := ts\<rparr>) recipient numShares)"

subsection \<open>Participation\<close>

text \<open>
  The loop of \<open>allocateSlice\<close>. The Vault's storage does not change in the loop, the outside
  state does with each \<open>transferFrom\<close>.
\<close>

fun allocateSliceLoop ::
  "'w Env \<Rightarrow> Vault \<Rightarrow> nat \<Rightarrow> (address \<times> address) list \<Rightarrow> 'w \<Rightarrow> 'w result" where
  "allocateSliceLoop X v numShares [] w = Inr w"
| "allocateSliceLoop X v numShares ((ofAsset, priceFeed) # rest) w =
     (let vaultHoldings = balanceOf X w ofAsset (this X)
      in if vaultHoldings = 0 then allocateSliceLoop X v numShares rest w
         else
           bindE (safe_mul vaultHoldings numShares) (\<lambda>x.
           bindE (safe_div x (totalSupply v)) (\<lambda>allocationAmount.
           let senderHoldings = balanceOf X w ofAsset (msg_sender X)
           in if \<not> senderHoldings \<ge> allocationAmount then Inl Require
              else
                let (ok, w') = transferFrom X w v ofAsset (msg_sender X) (this X) allocationAmount
                in if \<not> ok then Inl Assert
                   else allocateSliceLoop X v numShares rest w')))"

definition allocateSlice :: "'w Env \<Rightarrow> 'w \<Rightarrow> Vault \<Rightarrow> nat \<Rightarrow> (Vault \<times> 'w) result" where
  "allocateSlice X w v numShares =
     bindE (allocateSliceLoop X v numShares (universe X) w) (\<lambda>w'.
     bindE (createShares v (msg_sender X) numShares) (\<lambda>v'.
     Inr (v', w')))"

text \<open>
  The loop of \<open>separateSlice\<close>; \<open>v\<close> is the storage after the shares were destroyed.
\<close>

fun separateSliceLoop ::
  "'w Env \<Rightarrow> Vault \<Rightarrow> nat \<Rightarrow> nat \<Rightarrow> (address \<times> address) list \<Rightarrow> 'w \<Rightarrow> 'w result" where
  "separateSliceLoop X v numShares prevTotalSupply [] w = Inr w"
| "separateSliceLoop X v numShares prevTotalSupply ((ofAsset, priceFeed) # rest) w =
     (let vaultHoldings = balanceOf X w ofAsset (this X)
      in if vaultHoldings = 0 then separateSliceLoop X v numShares prevTotalSupply rest w
         else
           bindE (safe_mul vaultHoldings numShares) (\<lambda>x.
           bindE (safe_div x prevTotalSupply) (\<lambda>separationAmount.
           let (ok, w') = transfer X w v ofAsset (msg_sender X) separationAmount
           in if \<not> ok then Inl Assert
              else separateSliceLoop X v numShares prevTotalSupply rest w')))"

definition separateSlice :: "'w Env \<Rightarrow> 'w \<Rightarrow> Vault \<Rightarrow> nat \<Rightarrow> (Vault \<times> 'w) result" where
  "separateSlice X w v numShares =
     bindE (safe_sub (totalSupply v) (unclaimedRewards (atLastPayout v))) (\<lambda>prevTotalSupply.
     if \<not> isPastZero prevTotalSupply then Inl Assert
     else
       bindE (annihilateShares v (msg_sender X) numShares) (\<lambda>v'.
       bindE (separateSliceLoop X v' numShares prevTotalSupply (universe X) w) (\<lambda>w'.
       Inr (v', w'))))"

definition subscribeUsingSlice :: "'w Env \<Rightarrow> 'w \<Rightarrow> Vault \<Rightarrow> nat \<Rightarrow> (Vault \<times> 'w) result" where
  "subscribeUsingSlice X w v numShares =
     (if \<not> isPastZero (totalSupply v) then Inl PreCondition
      else if \<not> isPastZero numShares then Inl PreCondition
      else allocateSlice X w v numShares)"

definition redeemUsingSlice :: "'w Env \<Rightarrow> 'w \<Rightarrow> Vault \<Rightarrow> nat \<Rightarrow> (Vault \<times> 'w) result" where
  "redeemUsingSlice X w v numShares =
     (if \<not> balancesOfHolderAtLeast v (msg_sender X) numShares then Inl PreCondition
      else separateSlice X w v numShares)"

definition subscribe :: "'w Env \<Rightarrow> 'w \<Rightarrow> Vault \<Rightarrow> nat \<Rightarrow> nat \<Rightarrow> (Vault \<times> 'w) result" where
  "subscribe X w v numShares offeredValue =
     (if \<not> isSubscriberPermitted X (msg_sender X) numShares then Inl PreCondition
      else if \<not> isSubscribePermitted X (msg_sender X) numShares then Inl PreCondition
      else if isZero numShares then subscribeUsingSlice X w v numShares
      else
        bindE (subscribePriceForNumShares X w v numShares) (\<lambda>actualValue.
        if \<not> offeredValue \<ge> actualValue then Inl Assert
        else
          let (ok, w') = transferFrom X w v (referenceAsset v) (msg_sender X) (this X) actualValue
          in if \<not> ok then Inl Assert
             else bindE (createShares v (msg_sender X) numShares) (\<lambda>v'. Inr (v', w'))))"

definition redeem :: "'w Env \<Rightarrow> 'w \<Rightarrow> Vault \<Rightarrow> nat \<Rightarrow> nat \<Rightarrow> (Vault \<times> 'w) result" where
  "redeem X w v numShares requestedValue =
     (if \<not> isPastZero numShares then Inl PreCondition
      else if \<not> isRedeemPermitted X (msg_sender X) numShares then Inl PreCondition
      else
        bindE (priceForNumShares X w v numShares) (\<lambda>actualValue.
        if \<not> requestedValue \<le> actualValue then Inl Assert
        else
          let (ok, w') = transfer X w v (referenceAsset v) (msg_sender X) actualValue
          in if \<not> ok then Inl Assert
             else bindE (annihilateShares v (msg_sender X) numShares) (\<lambda>v'. Inr (v', w'))))"

subsection \<open>Rewards\<close>

definition convertUnclaimedRewards :: "'w Env \<Rightarrow> 'w \<Rightarrow> Vault \<Rightarrow> Vault result" where
  "convertUnclaimedRewards X w v =
     (if \<not> isOwner X v then Inl PreCondition
      else
        bindE (performCalculations X w v)
          (\<lambda>(gav', managementReward', performanceReward', unclaimedRewards', nav', sharePrice').
        if \<not> isPastZero gav' then Inl Assert
        else
          bindE (safe_mul (totalSupply v) unclaimedRewards') (\<lambda>x.
          bindE (safe_div x gav') (\<lambda>numShares.
          bindE (addShares v (owner v) numShares) (\<lambda>v'.
          Inr (v'\<lparr>atLastPayout :=
                 \<lparr>gav = gav',
                  managementReward = managementReward',
                  performanceReward = performanceReward',
                  unclaimedRewards = unclaimedRewards',
                  nav = nav',
                  sharePrice = sharePrice',
                  Calculations.totalSupply = totalSupply v',
                  timestamp = now X\<rparr>\<rparr>))))))"

subsection \<open>What a specification says about the ledger\<close>

text \<open>The sum of the share balances of all holders; the addresses are finitely many.\<close>

definition sumBalances :: "Vault \<Rightarrow> nat" where
  "sumBalances v = sum (balances v) UNIV"

text \<open>
  The decomposition of a derivative that the specification describes: each underlying with
  its per-unit rate gives an amount of the underlying, which is valued by \<open>valueOf\<close>.
\<close>

definition underlyingValuations ::
  "Oracles \<Rightarrow> (address \<Rightarrow> nat \<Rightarrow> (nat \<times> bool) result) \<Rightarrow> address \<Rightarrow> nat \<Rightarrow>
   address list \<Rightarrow> nat list \<Rightarrow> (nat \<times> bool) result list" where
  "underlyingValuations E valueOf derivative amount underlyings rates =
     map (\<lambda>(u, r). bindE (calcDenormalizedConversionAmount E derivative amount u r) (valueOf u))
       (zip underlyings rates)"


section \<open>Example oracles and an example fund\<close>

definition WETH :: address where "WETH = 1"
definition PRICEFEED :: address where "PRICEFEED = 2"
definition VAULT :: address where "VAULT = 3"
definition MANAGER :: address where "MANAGER = 4"
definition INVESTOR :: address where "INVESTOR = 5"
definition DAI :: address where "DAI = 7"
definition DERIVATIVEFEED :: address where "DERIVATIVEFEED = 8"
definition POOLTOKEN :: address where "POOLTOKEN = 9"
definition UNLISTED :: address where "UNLISTED = 10"
definition NOCODE :: address where "NOCODE = 12"

text \<open>
  A primitive feed at \<open>PRICEFEED\<close> that quotes WETH and DAI in WETH, the canonical DAI rate
  being flagged invalid, and a derivative feed at \<open>DERIVATIVEFEED\<close> for a pool token of
  which one unit stands for 2 WETH and 400 DAI. The four tokens have 18 decimals. At every
  other address there is no code, so a call to it fails.
\<close>

definition exampleOracles :: Oracles where
  "exampleOracles =
     \<lparr>primIsSupportedAsset = (\<lambda>feed a.
         if feed = PRICEFEED then Inr (a = WETH \<or> a = DAI) else Inl CallFailed),
      getLiveRate = (\<lambda>feed b q.
         if feed \<noteq> PRICEFEED then Inl CallFailed
         else if b = DAI then Inr (5000000000000000, True)
         else Inr (1000000000000000000, True)),
      getCanonicalRate = (\<lambda>feed b q.
         if feed \<noteq> PRICEFEED then Inl CallFailed
         else if b = DAI then Inr (5000000000000000, False)
         else Inr (1000000000000000000, True)),
      derivIsSupportedAsset = (\<lambda>feed a.
         if feed = DERIVATIVEFEED then Inr (a = POOLTOKEN) else Inl CallFailed),
      getRatesToUnderlyings = (\<lambda>feed a.
         if feed \<noteq> DERIVATIVEFEED then Inl CallFailed
         else if a = POOLTOKEN
         then Inr ([WETH, DAI], [2000000000000000000, 400000000000000000000])
         else Inr ([], [])),
      decimals = (\<lambda>a.
         if a = WETH \<or> a = DAI \<or> a = POOLTOKEN \<or> a = UNLISTED then Inr 18
         else Inl CallFailed)\<rparr>"

text \<open>
  The outside of the example fund: the token balances \<open>held asset holder\<close>, and \<open>seen\<close>,
  the share balances that the token's code read from the Vault while it ran.
\<close>

record Outside =
  held :: "address \<Rightarrow> address \<Rightarrow> nat"
  seen :: "nat list"

definition moveTokens :: "Outside \<Rightarrow> address \<Rightarrow> address \<Rightarrow> address \<Rightarrow> nat \<Rightarrow> Outside" where
  "moveTokens w asset src dst n =
     (let h = held w asset;
          h' = h(src := h src - n);
          h'' = h'(dst := h' dst + n)
      in w\<lparr>held := (held w)(asset := h'')\<rparr>)"

text \<open>
  Modelled from the spec: the rewards module (\<open>rewards/RewardsProtocol.sol\<close> and its
  implementation) is not among the sources. Section 4.2: the management fee is "a
  rate-per-time-unit function of elapsedTime and gav (monotonic non-decreasing in both)",
  here one thousandth of the gross value per time unit; the performance fee is "proportional
  to (currentSharePrice - highWaterMark) x totalSupply, scaled to the value domain", here a
  tenth of it. The fund holds one asset, the reference asset WETH, and everybody is permitted
  to subscribe and redeem. A token transfer moves the tokens if the payer has them, and its
  code reads, from the Vault, the share balance of the investor who pays or is paid.
\<close>

definition exampleEnv :: "address \<Rightarrow> nat \<Rightarrow> Outside Env" where
  "exampleEnv sender time =
     \<lparr>this = VAULT,
      msg_sender = sender,
      now = time,
      calculateManagementReward = (\<lambda>timeDifference g. timeDifference * g div 1000),
      calculatePerformanceReward = (\<lambda>priceDifference ts.
         priceDifference * ts div 1000000000000000000 div 10),
      isSubscriberPermitted = (\<lambda>a n. True),
      isSubscribePermitted = (\<lambda>a n. True),
      isRedeemPermitted = (\<lambda>a n. True),
      universe = [(WETH, PRICEFEED)],
      getQuoteAsset = (\<lambda>feed. WETH),
      getPrice = (\<lambda>feed a. 1000000000000000000),
      getDecimals = (\<lambda>a. 18),
      balanceOf = held,
      transfer = (\<lambda>w v asset dst n.
         if held w asset VAULT \<ge> n
         then (True, (moveTokens w asset VAULT dst n)\<lparr>seen := seen w @ [balances v dst]\<rparr>)
         else (False, w)),
      transferFrom = (\<lambda>w v asset src dst n.
         if held w asset src \<ge> n
         then (True, (moveTokens w asset src dst n)\<lparr>seen := seen w @ [balances v src]\<rparr>)
         else (False, w))\<rparr>"

text \<open>The snapshot that the constructor writes at time 0, for 18 decimals.\<close>

definition initialCalculations :: Calculations where
  "initialCalculations =
     \<lparr>gav = 0, managementReward = 0, performanceReward = 0, unclaimedRewards = 0, nav = 0,
      sharePrice = 1000000000000000000, Calculations.totalSupply = 0, timestamp = 0\<rparr>"

text \<open>A fund without shares, and a fund whose only investor holds one share.\<close>

definition emptyVault :: Vault where
  "emptyVault =
     \<lparr>balances = (\<lambda>a. 0), totalSupply = 0, owner = MANAGER,
      baseUnitsPerShare = 1000000000000000000, referenceAsset = WETH, subscriptionFee = 0,
      atLastPayout = initialCalculations\<rparr>"

definition exampleVault :: Vault where
  "exampleVault =
     \<lparr>balances = (\<lambda>a. 0)(INVESTOR := 1000000000000000000),
      totalSupply = 1000000000000000000, owner = MANAGER,
      baseUnitsPerShare = 1000000000000000000, referenceAsset = WETH, subscriptionFee = 0,
      atLastPayout = initialCalculations\<rparr>"

text \<open>The outside in which the Vault holds \<open>h\<close> base units of WETH and nobody else any.\<close>

definition exampleOutside :: "nat \<Rightarrow> Outside" where
  "exampleOutside h = \<lparr>held = (\<lambda>a who. if a = WETH \<and> who = VAULT then h else 0), seen = []\<rparr>"


section \<open>Basic facts\<close>

declare calcAssetValue.simps [simp del]

declare calcDerivativeValue.simps [simp del]

lemma bindE_Inr [simp]: "bindE (Inr x) f = f x"
  by (simp add: bindE_def)

lemma bindE_Inl [simp]: "bindE (Inl e) f = Inl e"
  by (simp add: bindE_def)

lemma bindE_eq_Inr: "bindE m f = Inr y \<longleftrightarrow> (\<exists>x. m = Inr x \<and> f x = Inr y)"
  by (cases m) simp_all

lemma bindE_eq_Inl: "bindE m f = Inl e \<longleftrightarrow> m = Inl e \<or> (\<exists>x. m = Inr x \<and> f x = Inl e)"
  by (cases m) simp_all

lemma safe_add_eq_Inr: "safe_add a b = Inr c \<longleftrightarrow> a + b \<le> MAX_UINT256 \<and> c = a + b"
  by (auto simp: safe_add_def)

lemma safe_sub_eq_Inr: "safe_sub a b = Inr c \<longleftrightarrow> b \<le> a \<and> c = a - b"
  by (auto simp: safe_sub_def)

lemma safe_mul_eq_Inr: "safe_mul a b = Inr c \<longleftrightarrow> a * b \<le> MAX_UINT256 \<and> c = a * b"
  by (auto simp: safe_mul_def)

lemma safe_div_eq_Inr: "safe_div a b = Inr c \<longleftrightarrow> b \<noteq> 0 \<and> c = a div b"
  by (auto simp: safe_div_def)

lemmas address_defs = WETH_def PRICEFEED_def VAULT_def MANAGER_def INVESTOR_def DAI_def
  DERIVATIVEFEED_def POOLTOKEN_def UNLISTED_def NOCODE_def

lemmas interpreter_defs = calcDenormalizedConversionAmount_def calcPrimitiveValue_def
  RATE_PRECISION_def safe_add_def safe_mul_def safe_div_def MAX_UINT256_def

lemma pow10_18 [simp]: "pow10 18 = 1000000000000000000"
  by (simp add: pow10_def)

lemma pow10_36 [simp]: "pow10 36 = 1000000000000000000000000000000000000"
  by (simp add: pow10_def)


section \<open>ValueInterpreter: invalid valuations\<close>

text \<open>
  C7, as the code has it. Let the primitive price feed answer that it does not support the
  base asset, and let the derivative price feed be absent (the zero address) or answer the
  same. Then both \<open>calcCanonicalAssetValue\<close> and \<open>calcLiveAssetValue\<close> return
  \<open>(0, false)\<close>, for every amount, quote asset and recursion bound, unless the call of
  \<open>isSupportedAsset\<close> on the quote asset in the guard aborts: then, and only then, the
  valuation aborts with it. That call is not made when an address or the amount is zero.
\<close>

theorem unsupported_asset_invalid:
  assumes "primIsSupportedAsset E p b = Inr False"
    and "d = 0 \<or> derivIsSupportedAsset E d b = Inr False"
  shows "calcCanonicalAssetValue E gas p d b amount q =
           (if p = 0 \<or> b = 0 \<or> q = 0 \<or> amount = 0 then Inr (0, False)
            else bindE (primIsSupportedAsset E p q) (\<lambda>supported. Inr (0, False))) \<and>
         calcLiveAssetValue E gas p d b amount q =
           (if p = 0 \<or> b = 0 \<or> q = 0 \<or> amount = 0 then Inr (0, False)
            else bindE (primIsSupportedAsset E p q) (\<lambda>supported. Inr (0, False)))"
proof -
  have "calcAssetValue E gas p d b amount q live =
           (if p = 0 \<or> b = 0 \<or> q = 0 \<or> amount = 0 then Inr (0, False)
            else bindE (primIsSupportedAsset E p q) (\<lambda>supported. Inr (0, False)))" for live
  proof (cases "primIsSupportedAsset E p q")
    case (Inl e)
    then show ?thesis by (simp add: calcAssetValue.simps)
  next
    case (Inr s)
    with assms show ?thesis by (auto simp: calcAssetValue.simps)
  qed
  then show ?thesis
    by (simp add: calcCanonicalAssetValue_def calcLiveAssetValue_def)
qed

theorem unsupported_asset_invalid_witness:
  "primIsSupportedAsset exampleOracles PRICEFEED UNLISTED = Inr False \<and>
   derivIsSupportedAsset exampleOracles DERIVATIVEFEED UNLISTED = Inr False \<and>
   primIsSupportedAsset exampleOracles PRICEFEED WETH = Inr True \<and>
   calcCanonicalAssetValue exampleOracles 0 PRICEFEED DERIVATIVEFEED UNLISTED 1000 WETH = Inr (0, False) \<and>
   calcLiveAssetValue exampleOracles 0 PRICEFEED DERIVATIVEFEED UNLISTED 1000 WETH = Inr (0, False)"
proof -
  have h1: "primIsSupportedAsset exampleOracles PRICEFEED UNLISTED = Inr False"
    by (simp add: exampleOracles_def address_defs)
  have h3: "derivIsSupportedAsset exampleOracles DERIVATIVEFEED UNLISTED = Inr False"
    by (simp add: exampleOracles_def address_defs)
  then have h2: "DERIVATIVEFEED = 0 \<or>
      derivIsSupportedAsset exampleOracles DERIVATIVEFEED UNLISTED = Inr False"
    by simp
  have q: "primIsSupportedAsset exampleOracles PRICEFEED WETH = Inr True"
    by (simp add: exampleOracles_def)
  have z: "\<not> (PRICEFEED = 0 \<or> UNLISTED = 0 \<or> WETH = 0 \<or> (1000 :: nat) = 0)"
    by (simp add: address_defs)
  show ?thesis
    using h1 h3 q unsupported_asset_invalid [OF h1 h2, of 0 1000 WETH]
    by (simp add: q z)
qed

text \<open>
  The claim C7 as stated has the valuation never revert for an asset that no feed supports.
  The primitive price feed of the example does not support the unlisted token, and at the
  address given as derivative price feed there is no code, so nothing is supported there;
  the call of \<open>isSupportedAsset\<close> to that address fails and the valuation aborts with it.
\<close>

theorem unsupported_asset_revert_counterexample:
  "primIsSupportedAsset exampleOracles PRICEFEED WETH = Inr True \<and>
   primIsSupportedAsset exampleOracles PRICEFEED UNLISTED = Inr False \<and>
   derivIsSupportedAsset exampleOracles NOCODE UNLISTED = Inl CallFailed \<and>
   calcCanonicalAssetValue exampleOracles 0 PRICEFEED NOCODE UNLISTED 1000 WETH = Inl CallFailed \<and>
   calcLiveAssetValue exampleOracles 0 PRICEFEED NOCODE UNLISTED 1000 WETH = Inl CallFailed"
  by (simp add: calcCanonicalAssetValue_def calcLiveAssetValue_def calcAssetValue.simps
      exampleOracles_def address_defs)

text \<open>
  C10. Both entry points return \<open>(0, false)\<close> whenever the amount is 0, or the base asset,
  the quote asset or the primitive price feed is the zero address, or the primitive price
  feed answers that it does not support the quote asset; this holds for every pair of
  assets, the pair of an asset with itself included. A zero amount of a correctly priced
  asset is thus reported as an invalid valuation, not as the valid value 0.
\<close>

theorem zero_or_unsupported_quote_invalid:
  assumes "p = 0 \<or> b = 0 \<or> q = 0 \<or> amount = 0 \<or> primIsSupportedAsset E p q = Inr False"
  shows "calcCanonicalAssetValue E gas p d b amount q = Inr (0, False) \<and>
         calcLiveAssetValue E gas p d b amount q = Inr (0, False)"
  using assms
  by (auto simp: calcCanonicalAssetValue_def calcLiveAssetValue_def calcAssetValue.simps)

theorem zero_or_unsupported_quote_invalid_witness:
  "primIsSupportedAsset exampleOracles PRICEFEED WETH = Inr True \<and>
   calcCanonicalAssetValue exampleOracles 0 PRICEFEED DERIVATIVEFEED WETH 0 WETH = Inr (0, False) \<and>
   calcLiveAssetValue exampleOracles 0 PRICEFEED DERIVATIVEFEED WETH 0 WETH = Inr (0, False) \<and>
   primIsSupportedAsset exampleOracles PRICEFEED POOLTOKEN = Inr False \<and>
   calcCanonicalAssetValue exampleOracles 0 PRICEFEED DERIVATIVEFEED WETH 1000 POOLTOKEN = Inr (0, False) \<and>
   calcLiveAssetValue exampleOracles 0 PRICEFEED DERIVATIVEFEED WETH 1000 POOLTOKEN = Inr (0, False)"
proof -
  have h: "PRICEFEED = 0 \<or> WETH = 0 \<or> WETH = 0 \<or> (0::nat) = 0 \<or>
           primIsSupportedAsset exampleOracles PRICEFEED WETH = Inr False"
    by simp
  have s: "primIsSupportedAsset exampleOracles PRICEFEED WETH = Inr True"
    by (simp add: exampleOracles_def)
  have u: "primIsSupportedAsset exampleOracles PRICEFEED POOLTOKEN = Inr False"
    by (simp add: exampleOracles_def address_defs)
  then have h': "PRICEFEED = 0 \<or> WETH = 0 \<or> POOLTOKEN = 0 \<or> (1000::nat) = 0 \<or>
           primIsSupportedAsset exampleOracles PRICEFEED POOLTOKEN = Inr False"
    by simp
  show ?thesis
    using s u zero_or_unsupported_quote_invalid [OF h, of 0 DERIVATIVEFEED]
      zero_or_unsupported_quote_invalid [OF h', of 0 DERIVATIVEFEED]
    by simp
qed

section \<open>ValueInterpreter: derivatives\<close>

text \<open>
  The loop returns exactly when \<open>rates\<close> is long enough, every underlying valuation
  returns and the running sum stays within 256 bits; it then returns the sum and the
  conjunction of the flags.
\<close>

lemma derivativeLoop_char:
  "v0 \<le> MAX_UINT256 \<Longrightarrow>
   derivativeLoop E f deriv amount us rs (v0, ok0) = Inr (v, ok) \<longleftrightarrow>
   length us \<le> length rs \<and>
   (\<exists>vals. underlyingValuations E f deriv amount us rs = map Inr vals \<and>
      v0 + sum_list (map fst vals) \<le> MAX_UINT256 \<and>
      v = v0 + sum_list (map fst vals) \<and> ok = (ok0 \<and> list_all snd vals))"
proof (induction us arbitrary: rs v0 ok0)
  case Nil
  then show ?case by (auto simp: underlyingValuations_def)
next
  case (Cons u us)
  show ?case
  proof (cases rs)
    case Nil
    then show ?thesis by simp
  next
    case rs: (Cons r rs')
    have step: "derivativeLoop E f deriv amount (u # us) (r # rs') (v0, ok0) = Inr (v, ok) \<longleftrightarrow>
      (\<exists>uv uok. bindE (calcDenormalizedConversionAmount E deriv amount u r) (f u) = Inr (uv, uok) \<and>
         v0 + uv \<le> MAX_UINT256 \<and>
         derivativeLoop E f deriv amount us rs' (v0 + uv, if \<not> uok then False else ok0) = Inr (v, ok))"
      by (auto simp: bindE_eq_Inr safe_add_eq_Inr)
    have uv: "underlyingValuations E f deriv amount (u # us) (r # rs') =
          bindE (calcDenormalizedConversionAmount E deriv amount u r) (f u) #
          underlyingValuations E f deriv amount us rs'"
      by (simp add: underlyingValuations_def)
    show ?thesis
      unfolding rs step uv
    proof (intro iffI; elim exE conjE)
      fix uv uok
      assume a: "bindE (calcDenormalizedConversionAmount E deriv amount u r) (f u) = Inr (uv, uok)"
        and b: "v0 + uv \<le> MAX_UINT256"
        and c: "derivativeLoop E f deriv amount us rs' (v0 + uv, if \<not> uok then False else ok0) = Inr (v, ok)"
      from c Cons.IH [OF b] obtain vals where
        l: "length us \<le> length rs'" and
        m: "underlyingValuations E f deriv amount us rs' = map Inr vals" and
        s: "v0 + uv + sum_list (map fst vals) \<le> MAX_UINT256" and
        v: "v = v0 + uv + sum_list (map fst vals)" and
        k: "ok = ((if \<not> uok then False else ok0) \<and> list_all snd vals)"
        by blast
      show "length (u # us) \<le> length (r # rs') \<and>
        (\<exists>vals. bindE (calcDenormalizedConversionAmount E deriv amount u r) (f u) #
                 underlyingValuations E f deriv amount us rs' = map Inr vals \<and>
          v0 + sum_list (map fst vals) \<le> MAX_UINT256 \<and>
          v = v0 + sum_list (map fst vals) \<and> ok = (ok0 \<and> list_all snd vals))"
        using l a m s v k by (intro conjI exI [of _ "(uv, uok) # vals"]) auto
    next
      fix vals
      assume l: "length (u # us) \<le> length (r # rs')"
        and m: "bindE (calcDenormalizedConversionAmount E deriv amount u r) (f u) #
                 underlyingValuations E f deriv amount us rs' = map Inr vals"
        and s: "v0 + sum_list (map fst vals) \<le> MAX_UINT256"
        and v: "v = v0 + sum_list (map fst vals)"
        and k: "ok = (ok0 \<and> list_all snd vals)"
      from m obtain x vals' where vals: "vals = x # vals'"
        and x: "bindE (calcDenormalizedConversionAmount E deriv amount u r) (f u) = Inr x"
        and m': "underlyingValuations E f deriv amount us rs' = map Inr vals'"
        by (cases vals) auto
      obtain uv uok where xp: "x = (uv, uok)" by (cases x)
      have b: "v0 + uv \<le> MAX_UINT256" using s vals xp by simp
      have "derivativeLoop E f deriv amount us rs' (v0 + uv, if \<not> uok then False else ok0) = Inr (v, ok)"
        unfolding Cons.IH [OF b]
        using l m' s v k vals xp by (intro conjI exI [of _ vals']) auto
      then show "\<exists>uv uok. bindE (calcDenormalizedConversionAmount E deriv amount u r) (f u) = Inr (uv, uok) \<and>
         v0 + uv \<le> MAX_UINT256 \<and>
         derivativeLoop E f deriv amount us rs' (v0 + uv, if \<not> uok then False else ok0) = Inr (v, ok)"
        using x xp b by blast
    qed
  qed
qed

text \<open>
  An asset that passes the guard of \<open>__calcAssetValue\<close>, that the primitive price feed
  answers not to support and the derivative price feed answers to support, is valued by
  \<open>__calcDerivativeValue\<close>.
\<close>

lemma calcAssetValue_derivative:
  assumes "p \<noteq> 0" "b \<noteq> 0" "q \<noteq> 0" "amount \<noteq> 0"
    and "primIsSupportedAsset E p q = Inr True"
    and "primIsSupportedAsset E p b = Inr False"
    and "d \<noteq> 0" "derivIsSupportedAsset E d b = Inr True"
  shows "calcAssetValue E gas p d b amount q live = calcDerivativeValue E gas p d b amount q live"
  using assms by (simp add: calcAssetValue.simps [of E gas p d b])

lemma calcDerivativeValue_char:
  assumes "getRatesToUnderlyings E d b = Inr (us, rs)"
  shows "calcDerivativeValue E (Suc gas) p d b amount q live = Inr (val, isValid) \<longleftrightarrow>
     length us \<le> length rs \<and>
     (\<exists>vals. underlyingValuations E (\<lambda>u a. calcAssetValue E gas p d u a q live) b amount us rs
               = map Inr vals \<and>
        sum_list (map fst vals) \<le> MAX_UINT256 \<and>
        val = sum_list (map fst vals) \<and> isValid = list_all snd vals)"
  using derivativeLoop_char [of 0 E "\<lambda>u a. calcAssetValue E gas p d u a q live" b amount us rs
      True val isValid]
  by (simp add: calcDerivativeValue.simps assms)

text \<open>
  C8. The valuation of a derivative asset by the two entry points. Let the asset pass the
  guard, let the primitive price feed answer that it does not support it and the derivative
  price feed that it does, and let the derivative price feed give the underlyings \<open>us\<close>
  with the per-unit rates \<open>rs\<close>. Then \<open>calcCanonicalAssetValue\<close> (and likewise
  \<open>calcLiveAssetValue\<close>) returns \<open>(val, isValid)\<close> if and only if there is a rate for
  every underlying, each underlying amount (derivative amount times rate, denormalized) is
  computed and valued by the same entry point without abort, with results \<open>vals\<close>, and the
  sum of the values fits 256 bits; then \<open>val\<close> is the sum of the underlying values and
  \<open>isValid\<close> is the conjunction of the underlying validity flags: false as soon as one
  underlying valuation is invalid, true only if all are valid.
\<close>

theorem derivative_value_sum_and_validity:
  assumes "p \<noteq> 0" "b \<noteq> 0" "q \<noteq> 0" "amount \<noteq> 0"
    and "primIsSupportedAsset E p q = Inr True"
    and "primIsSupportedAsset E p b = Inr False"
    and "d \<noteq> 0" "derivIsSupportedAsset E d b = Inr True"
    and "getRatesToUnderlyings E d b = Inr (us, rs)"
  shows "(calcCanonicalAssetValue E (Suc gas) p d b amount q = Inr (val, isValid) \<longleftrightarrow>
            length us \<le> length rs \<and>
            (\<exists>vals. underlyingValuations E (\<lambda>u a. calcCanonicalAssetValue E gas p d u a q)
                       b amount us rs = map Inr vals \<and>
               sum_list (map fst vals) \<le> MAX_UINT256 \<and>
               val = sum_list (map fst vals) \<and> isValid = list_all snd vals)) \<and>
         (calcLiveAssetValue E (Suc gas) p d b amount q = Inr (val, isValid) \<longleftrightarrow>
            length us \<le> length rs \<and>
            (\<exists>vals. underlyingValuations E (\<lambda>u a. calcLiveAssetValue E gas p d u a q)
                       b amount us rs = map Inr vals \<and>
               sum_list (map fst vals) \<le> MAX_UINT256 \<and>
               val = sum_list (map fst vals) \<and> isValid = list_all snd vals))"
proof -
  have "calcAssetValue E (Suc gas) p d b amount q live = Inr (val, isValid) \<longleftrightarrow>
     length us \<le> length rs \<and>
     (\<exists>vals. underlyingValuations E (\<lambda>u a. calcAssetValue E gas p d u a q live) b amount us rs
               = map Inr vals \<and>
        sum_list (map fst vals) \<le> MAX_UINT256 \<and>
        val = sum_list (map fst vals) \<and> isValid = list_all snd vals)" for live
    unfolding calcAssetValue_derivative [OF assms(1-8)]
    by (rule calcDerivativeValue_char [OF assms(9)])
  from this [of False] this [of True] show ?thesis
    unfolding calcCanonicalAssetValue_def calcLiveAssetValue_def by blast
qed

lemma example_weth_value:
  "calcAssetValue exampleOracles g PRICEFEED DERIVATIVEFEED WETH 2000000000000000000 WETH live
     = Inr (2000000000000000000, True)"
  by (subst calcAssetValue.simps) (simp add: interpreter_defs exampleOracles_def address_defs)

lemma example_dai_value:
  "calcAssetValue exampleOracles g PRICEFEED DERIVATIVEFEED DAI 400000000000000000000 WETH live
     = Inr (2000000000000000000, live)"
  by (subst calcAssetValue.simps) (simp add: interpreter_defs exampleOracles_def address_defs)

lemma example_underlyingValuations:
  "underlyingValuations exampleOracles
     (\<lambda>u a. calcAssetValue exampleOracles g PRICEFEED DERIVATIVEFEED u a WETH live)
     POOLTOKEN 1000000000000000000 [WETH, DAI] [2000000000000000000, 400000000000000000000]
   = map Inr [(2000000000000000000, True), (2000000000000000000, live)]"
proof -
  have a: "calcDenormalizedConversionAmount exampleOracles POOLTOKEN 1000000000000000000 WETH
             2000000000000000000 = Inr 2000000000000000000"
    by (simp add: interpreter_defs exampleOracles_def address_defs)
  have b: "calcDenormalizedConversionAmount exampleOracles POOLTOKEN 1000000000000000000 DAI
             400000000000000000000 = Inr 400000000000000000000"
    by (simp add: interpreter_defs exampleOracles_def address_defs)
  show ?thesis
    by (simp add: underlyingValuations_def a b example_weth_value example_dai_value)
qed

theorem derivative_value_sum_and_validity_witness:
  "primIsSupportedAsset exampleOracles PRICEFEED WETH = Inr True \<and>
   primIsSupportedAsset exampleOracles PRICEFEED POOLTOKEN = Inr False \<and>
   derivIsSupportedAsset exampleOracles DERIVATIVEFEED POOLTOKEN = Inr True \<and>
   getRatesToUnderlyings exampleOracles DERIVATIVEFEED POOLTOKEN
     = Inr ([WETH, DAI], [2000000000000000000, 400000000000000000000]) \<and>
   calcCanonicalAssetValue exampleOracles (Suc 0) PRICEFEED DERIVATIVEFEED POOLTOKEN
       1000000000000000000 WETH = Inr (4000000000000000000, False) \<and>
   calcLiveAssetValue exampleOracles (Suc 0) PRICEFEED DERIVATIVEFEED POOLTOKEN
       1000000000000000000 WETH = Inr (4000000000000000000, True)"
proof -
  have h1: "PRICEFEED \<noteq> 0" and h2: "POOLTOKEN \<noteq> 0" and h3: "WETH \<noteq> 0"
    and h4: "(1000000000000000000 :: nat) \<noteq> 0" and h7: "DERIVATIVEFEED \<noteq> 0"
    by (simp_all add: address_defs)
  have h5: "primIsSupportedAsset exampleOracles PRICEFEED WETH = Inr True"
    by (simp add: exampleOracles_def)
  have h6: "primIsSupportedAsset exampleOracles PRICEFEED POOLTOKEN = Inr False"
    by (simp add: exampleOracles_def address_defs)
  have h8: "derivIsSupportedAsset exampleOracles DERIVATIVEFEED POOLTOKEN = Inr True"
    by (simp add: exampleOracles_def)
  have h9: "getRatesToUnderlyings exampleOracles DERIVATIVEFEED POOLTOKEN
             = Inr ([WETH, DAI], [2000000000000000000, 400000000000000000000])"
    by (simp add: exampleOracles_def)
  note inst = derivative_value_sum_and_validity [OF h1 h2 h3 h4 h5 h6 h7 h8 h9, of 0]
  have c: "calcCanonicalAssetValue exampleOracles (Suc 0) PRICEFEED DERIVATIVEFEED POOLTOKEN
       1000000000000000000 WETH = Inr (4000000000000000000, False)"
    unfolding inst [THEN conjunct1]
    by (intro conjI exI [of _ "[(2000000000000000000, True), (2000000000000000000, False)]"])
       (simp_all add: calcCanonicalAssetValue_def example_underlyingValuations MAX_UINT256_def)
  have l: "calcLiveAssetValue exampleOracles (Suc 0) PRICEFEED DERIVATIVEFEED POOLTOKEN
       1000000000000000000 WETH = Inr (4000000000000000000, True)"
    unfolding inst [THEN conjunct2]
    by (intro conjI exI [of _ "[(2000000000000000000, True), (2000000000000000000, True)]"])
       (simp_all add: calcLiveAssetValue_def example_underlyingValuations MAX_UINT256_def)
  from h5 h6 h8 h9 c l show ?thesis by blast
qed

section \<open>Vault: fees and share price\<close>

lemmas vault_math_defs = safe_add_def safe_sub_def safe_mul_def safe_div_def MAX_UINT256_def
  isPastZero_def isZero_def

lemma example_calcGav:
  "calcGav (exampleEnv s t) (exampleOutside h) v =
     (if referenceAsset v \<noteq> WETH then Inl Assert
      else if h * 1000000000000000000 \<le> MAX_UINT256
      then (if h * 1000000000000000000 div 1000000000000000000 \<le> MAX_UINT256 then Inr h else Inl MathOverflow)
      else Inl MathOverflow)"
  by (simp add: calcGav_def exampleEnv_def exampleOutside_def safe_add_def safe_mul_def safe_div_def Let_def)

lemma example_gav_2:
  "calcGav (exampleEnv s t) (exampleOutside 2000000000000000000) exampleVault = Inr 2000000000000000000"
  by (simp add: example_calcGav exampleVault_def MAX_UINT256_def)

lemma example_rewards_2:
  "calcUnclaimedRewards (exampleEnv s 100) exampleVault 2000000000000000000 =
     Inr (200000000000000000, 100000000000000000, 300000000000000000)"
  by (simp add: calcUnclaimedRewards_def calcValuePerShare_def exampleEnv_def exampleVault_def
      initialCalculations_def vault_math_defs)

lemma example_performCalculations:
  "performCalculations (exampleEnv s 100) (exampleOutside 2000000000000000000) exampleVault =
     Inr (2000000000000000000, 200000000000000000, 100000000000000000, 300000000000000000,
          1700000000000000000, 1700000000000000000)"
  by (simp add: performCalculations_def example_gav_2 example_rewards_2 calcNav_def safe_sub_def,
      simp add: calcValuePerShare_def exampleVault_def vault_math_defs)

lemma calcValuePerShare_eq_Inr:
  "calcValuePerShare v x = Inr c \<longleftrightarrow>
     0 < totalSupply v \<and> x * baseUnitsPerShare v \<le> MAX_UINT256 \<and>
     c = x * baseUnitsPerShare v div totalSupply v"
  by (auto simp: calcValuePerShare_def isPastZero_def bindE_eq_Inr safe_mul_eq_Inr safe_div_eq_Inr)

lemma calcUnclaimedRewards_eq_Inr:
  "calcUnclaimedRewards X v g = Inr (m, p, u) \<longleftrightarrow>
     timestamp (atLastPayout v) \<le> now X \<and>
     m = calculateManagementReward X (now X - timestamp (atLastPayout v)) g \<and>
     (if totalSupply v \<noteq> 0
      then g * baseUnitsPerShare v \<le> MAX_UINT256 \<and>
           p = (if sharePrice (atLastPayout v) < g * baseUnitsPerShare v div totalSupply v
                then calculatePerformanceReward X
                       (g * baseUnitsPerShare v div totalSupply v - sharePrice (atLastPayout v))
                       (totalSupply v)
                else 0)
      else p = 0) \<and>
     m + p \<le> MAX_UINT256 \<and> u = m + p"
  by (auto simp: calcUnclaimedRewards_def bindE_eq_Inr safe_sub_eq_Inr safe_add_eq_Inr
      calcValuePerShare_eq_Inr split: if_splits)

lemma performCalculations_eq_Inr:
  "performCalculations X w v = Inr (g, m, p, u, n, sp) \<longleftrightarrow>
     calcGav X w v = Inr g \<and> calcUnclaimedRewards X v g = Inr (m, p, u) \<and>
     u \<le> g \<and> n = g - u \<and>
     (if 0 < totalSupply v then calcValuePerShare v n = Inr sp else sp = baseUnitsPerShare v)"
  by (auto simp: performCalculations_def bindE_eq_Inr calcNav_def safe_sub_eq_Inr isPastZero_def
      split: if_splits)

text \<open>
  C3, as the code has it. Whenever \<open>calcUnclaimedRewards\<close> returns, the performance reward
  is 0 unless \<open>totalSupply\<close> is not 0 and the share price implied by the gross asset value
  itself, \<open>gav * baseUnitsPerShare / totalSupply\<close> with no management reward deducted, exceeds
  the share price of the last snapshot; when it exceeds, the performance reward is what the
  rewards module's \<open>calculatePerformanceReward\<close> returns for the difference of the two
  share prices and \<open>totalSupply\<close>.
\<close>

theorem performance_reward_on_gross_share_price:
  assumes "calcUnclaimedRewards X v g = Inr (m, p, u)"
  shows "p = (if totalSupply v \<noteq> 0 \<and>
                 sharePrice (atLastPayout v) < g * baseUnitsPerShare v div totalSupply v
              then calculatePerformanceReward X
                     (g * baseUnitsPerShare v div totalSupply v - sharePrice (atLastPayout v))
                     (totalSupply v)
              else 0)"
  using assms by (auto simp: calcUnclaimedRewards_eq_Inr split: if_splits)

lemma example_rewards_105:
  "calcUnclaimedRewards (exampleEnv s 100) exampleVault 1050000000000000000 =
     Inr (105000000000000000, 5000000000000000, 110000000000000000)"
  by (simp add: calcUnclaimedRewards_def calcValuePerShare_def exampleEnv_def exampleVault_def
      initialCalculations_def vault_math_defs)

text \<open>
  The claim C3 as stated compares the share price implied by \<open>gav - managementReward\<close>
  with the high-water mark. In the example fund, 100 time units after the snapshot and with
  a gross value of 1.05 WETH, the management reward is 0.105 WETH, so that share price is
  0.945 WETH and does not exceed the mark of 1 WETH; the performance reward is not 0.
\<close>

theorem performance_reward_net_share_price_counterexample:
  "calcUnclaimedRewards (exampleEnv MANAGER 100) exampleVault 1050000000000000000 =
     Inr (105000000000000000, 5000000000000000, 110000000000000000) \<and>
   (5000000000000000 :: nat) \<noteq> 0 \<and>
   0 < totalSupply exampleVault \<and>
   calcValuePerShare exampleVault (1050000000000000000 - 105000000000000000) = Inr 945000000000000000 \<and>
   \<not> sharePrice (atLastPayout exampleVault) < 945000000000000000"
  by (simp add: example_rewards_105, simp add: calcValuePerShare_def exampleVault_def
      initialCalculations_def vault_math_defs)

theorem performance_reward_on_gross_share_price_witness:
  "calcUnclaimedRewards (exampleEnv MANAGER 100) exampleVault 2000000000000000000 =
     Inr (200000000000000000, 100000000000000000, 300000000000000000) \<and>
   100000000000000000 =
     calculatePerformanceReward (exampleEnv MANAGER 100)
       (2000000000000000000 * baseUnitsPerShare exampleVault div totalSupply exampleVault
          - sharePrice (atLastPayout exampleVault)) (totalSupply exampleVault)"
proof -
  have h: "calcUnclaimedRewards (exampleEnv MANAGER 100) exampleVault 2000000000000000000 =
     Inr (200000000000000000, 100000000000000000, 300000000000000000)"
    by (rule example_rewards_2)
  have c: "totalSupply exampleVault \<noteq> 0 \<and> sharePrice (atLastPayout exampleVault)
      < 2000000000000000000 * baseUnitsPerShare exampleVault div totalSupply exampleVault"
    by (simp add: exampleVault_def initialCalculations_def)
  show ?thesis
    using h c performance_reward_on_gross_share_price [OF h] by simp
qed

lemma priceForNumShares_eq:
  assumes "performCalculations X w v = Inr (g, m, p, u, n, sp)"
  shows "priceForNumShares X w v k = bindE (safe_mul k sp) (\<lambda>x. safe_div x (baseUnitsPerShare v))"
  using assms by (simp add: priceForNumShares_def)

text \<open>
  C5, as the code has it. In a fund with \<open>totalSupply > 0\<close>, the share price that
  \<open>performCalculations\<close> returns is the net asset value per share,
  \<open>(gav - unclaimedRewards) * baseUnitsPerShare / totalSupply\<close>, rounded down. A redemption
  of \<open>k\<close> shares is priced \<open>k * sharePrice / baseUnitsPerShare\<close>, and a subscription that
  price times \<open>(SUBSCRIBE_FEE_DIVISOR - subscriptionFee) / SUBSCRIBE_FEE_DIVISOR\<close>.
\<close>

theorem share_price_is_net_value_per_share:
  assumes "0 < totalSupply v"
    and "performCalculations X w v = Inr (g, m, p, u, n, sp)"
  shows "u \<le> g \<and> n = g - u \<and>
         sp = (g - u) * baseUnitsPerShare v div totalSupply v \<and>
         (priceForNumShares X w v k = Inr price \<longrightarrow>
            price = k * sp div baseUnitsPerShare v) \<and>
         (subscribePriceForNumShares X w v k = Inr price' \<longrightarrow>
            price' = (k * sp div baseUnitsPerShare v)
                       * (SUBSCRIBE_FEE_DIVISOR - subscriptionFee v) div SUBSCRIBE_FEE_DIVISOR)"
proof -
  from assms have a: "u \<le> g" "n = g - u" "sp = (g - u) * baseUnitsPerShare v div totalSupply v"
    by (auto simp: performCalculations_eq_Inr calcValuePerShare_eq_Inr)
  have b: "priceForNumShares X w v k = Inr price \<longrightarrow> price = k * sp div baseUnitsPerShare v"
    by (auto simp: priceForNumShares_eq [OF assms(2)] bindE_eq_Inr safe_mul_eq_Inr safe_div_eq_Inr)
  have c: "subscribePriceForNumShares X w v k = Inr price' \<longrightarrow>
            price' = (k * sp div baseUnitsPerShare v)
                       * (SUBSCRIBE_FEE_DIVISOR - subscriptionFee v) div SUBSCRIBE_FEE_DIVISOR"
    by (auto simp: subscribePriceForNumShares_def priceForNumShares_eq [OF assms(2)] bindE_eq_Inr
        safe_mul_eq_Inr safe_div_eq_Inr safe_sub_eq_Inr)
  from a b c show ?thesis by blast
qed

text \<open>
  The claim C5 as stated has the gross asset value in place of the net one. In the example
  fund with 2 WETH, 100 time units after the snapshot, 0.3 WETH of rewards are unclaimed:
  the share price is 1.7 WETH, and the gross value per share is 2 WETH.
\<close>

theorem share_price_gross_counterexample:
  "0 < totalSupply exampleVault \<and>
   performCalculations (exampleEnv INVESTOR 100) (exampleOutside 2000000000000000000) exampleVault =
     Inr (2000000000000000000, 200000000000000000, 100000000000000000, 300000000000000000,
          1700000000000000000, 1700000000000000000) \<and>
   2000000000000000000 * baseUnitsPerShare exampleVault div totalSupply exampleVault
     = 2000000000000000000 \<and>
   (1700000000000000000 :: nat) \<noteq> 2000000000000000000"
  by (simp add: example_performCalculations, simp add: exampleVault_def)

lemma example_priceForNumShares:
  "priceForNumShares (exampleEnv s 100) (exampleOutside 2000000000000000000) exampleVault
     100000000000000000 = Inr 170000000000000000"
  by (simp add: priceForNumShares_def example_performCalculations,
      simp add: exampleVault_def vault_math_defs)

lemma example_subscribePriceForNumShares:
  "subscribePriceForNumShares (exampleEnv s 100) (exampleOutside 2000000000000000000) exampleVault
     100000000000000000 = Inr 170000000000000000"
  by (simp add: subscribePriceForNumShares_def example_priceForNumShares,
      simp add: exampleVault_def vault_math_defs SUBSCRIBE_FEE_DIVISOR_def)



theorem share_price_is_net_value_per_share_witness:
  "0 < totalSupply exampleVault \<and>
   performCalculations (exampleEnv INVESTOR 100) (exampleOutside 2000000000000000000) exampleVault =
     Inr (2000000000000000000, 200000000000000000, 100000000000000000, 300000000000000000,
          1700000000000000000, 1700000000000000000) \<and>
   priceForNumShares (exampleEnv INVESTOR 100) (exampleOutside 2000000000000000000) exampleVault
     100000000000000000 = Inr 170000000000000000 \<and>
   subscribePriceForNumShares (exampleEnv INVESTOR 100) (exampleOutside 2000000000000000000) exampleVault
     100000000000000000 = Inr 170000000000000000 \<and>
   (1700000000000000000 :: nat) =
     (2000000000000000000 - 300000000000000000) * baseUnitsPerShare exampleVault
       div totalSupply exampleVault \<and>
   (170000000000000000 :: nat) =
     100000000000000000 * 1700000000000000000 div baseUnitsPerShare exampleVault \<and>
   (170000000000000000 :: nat) =
     (100000000000000000 * 1700000000000000000 div baseUnitsPerShare exampleVault)
       * (SUBSCRIBE_FEE_DIVISOR - subscriptionFee exampleVault) div SUBSCRIBE_FEE_DIVISOR"
proof -
  have h1: "0 < totalSupply exampleVault"
    by (simp add: exampleVault_def)
  have h2: "performCalculations (exampleEnv INVESTOR 100) (exampleOutside 2000000000000000000) exampleVault =
     Inr (2000000000000000000, 200000000000000000, 100000000000000000, 300000000000000000,
          1700000000000000000, 1700000000000000000)"
    by (rule example_performCalculations)
  have h3: "priceForNumShares (exampleEnv INVESTOR 100) (exampleOutside 2000000000000000000) exampleVault
     100000000000000000 = Inr 170000000000000000"
    by (rule example_priceForNumShares)
  have h4: "subscribePriceForNumShares (exampleEnv INVESTOR 100) (exampleOutside 2000000000000000000)
     exampleVault 100000000000000000 = Inr 170000000000000000"
    by (rule example_subscribePriceForNumShares)
  show ?thesis
    using h1 h2 h3 h4
      share_price_is_net_value_per_share [OF h1 h2, of 100000000000000000 170000000000000000
        170000000000000000]
    by blast
qed

lemma safe_ops_not_PreCondition [simp]:
  "safe_add a b \<noteq> Inl PreCondition" "safe_sub a b \<noteq> Inl PreCondition"
  "safe_mul a b \<noteq> Inl PreCondition" "safe_div a b \<noteq> Inl PreCondition"
  by (simp_all add: safe_add_def safe_sub_def safe_mul_def safe_div_def)

lemma calcGavLoop_not_PreCondition: "calcGavLoop X w v assets g \<noteq> Inl PreCondition"
  by (induction assets arbitrary: g) (auto simp: bindE_eq_Inl Let_def split: if_splits)

lemma calcGav_not_PreCondition: "calcGav X w v \<noteq> Inl PreCondition"
  by (simp add: calcGav_def calcGavLoop_not_PreCondition)

lemma calcValuePerShare_not_DivisionByZero: "calcValuePerShare v x \<noteq> Inl DivisionByZero"
  by (auto simp: calcValuePerShare_def isPastZero_def bindE_eq_Inl safe_mul_def safe_div_def)

lemma calcValuePerShare_PreCondition: "calcValuePerShare v x = Inl PreCondition \<longleftrightarrow> totalSupply v = 0"
  by (auto simp: calcValuePerShare_def isPastZero_def bindE_eq_Inl)

lemma calcUnclaimedRewards_not_PreCondition: "calcUnclaimedRewards X v g \<noteq> Inl PreCondition"
  by (auto simp: calcUnclaimedRewards_def bindE_eq_Inl calcValuePerShare_PreCondition split: if_splits)

lemma calcUnclaimedRewards_not_DivisionByZero: "calcUnclaimedRewards X v g \<noteq> Inl DivisionByZero"
  by (auto simp: calcUnclaimedRewards_def bindE_eq_Inl calcValuePerShare_not_DivisionByZero
      safe_sub_def safe_add_def split: if_splits)

lemma performCalculations_not_PreCondition: "performCalculations X w v \<noteq> Inl PreCondition"
  by (auto simp: performCalculations_def bindE_eq_Inl calcGav_not_PreCondition
      calcUnclaimedRewards_not_PreCondition calcNav_def calcValuePerShare_PreCondition isPastZero_def
      split: if_splits)

lemma performCalculations_no_shares:
  assumes "totalSupply v = 0"
  shows "performCalculations X w v =
     bindE (calcGav X w v) (\<lambda>g.
     bindE (safe_sub (now X) (timestamp (atLastPayout v))) (\<lambda>timeDifference.
     bindE (safe_add (calculateManagementReward X timeDifference g) 0) (\<lambda>u.
     bindE (safe_sub g u) (\<lambda>n.
     Inr (g, calculateManagementReward X timeDifference g, 0, u, n, baseUnitsPerShare v)))))"
proof (cases "calcGav X w v")
  case (Inl e)
  then show ?thesis by (simp add: performCalculations_def)
next
  case (Inr g)
  show ?thesis
  proof (cases "safe_sub (now X) (timestamp (atLastPayout v))")
    case (Inl e)
    then show ?thesis
      using Inr assms by (simp add: performCalculations_def calcUnclaimedRewards_def)
  next
    case t: (Inr timeDifference)
    show ?thesis
    proof (cases "safe_add (calculateManagementReward X timeDifference g) 0")
      case (Inl e)
      then show ?thesis
        using Inr t assms by (simp add: performCalculations_def calcUnclaimedRewards_def)
    next
      case u: (Inr u)
      then show ?thesis
        using Inr t assms
        by (simp add: performCalculations_def calcUnclaimedRewards_def calcNav_def isPastZero_def)
    qed
  qed
qed

text \<open>
  C6. In a fund with \<open>totalSupply = 0\<close>, \<open>performCalculations\<close> is the computation
  written out below, in which nothing is divided by \<open>totalSupply\<close>, and the share price
  it returns is \<open>baseUnitsPerShare\<close>. The division in \<open>calcValuePerShare\<close> is never by
  zero; its precondition fails exactly when \<open>totalSupply = 0\<close>; and neither
  \<open>calcUnclaimedRewards\<close> nor \<open>performCalculations\<close>, the two callers, ever aborts on
  that precondition or, for the former, on a division by zero: they call it only when
  \<open>totalSupply > 0\<close>.
\<close>

theorem share_price_without_shares:
  "(totalSupply v = 0 \<longrightarrow>
      performCalculations X w v =
        bindE (calcGav X w v) (\<lambda>g.
        bindE (safe_sub (now X) (timestamp (atLastPayout v))) (\<lambda>timeDifference.
        bindE (safe_add (calculateManagementReward X timeDifference g) 0) (\<lambda>u.
        bindE (safe_sub g u) (\<lambda>n.
        Inr (g, calculateManagementReward X timeDifference g, 0, u, n, baseUnitsPerShare v)))))) \<and>
   (totalSupply v = 0 \<longrightarrow> performCalculations X w v = Inr (g, m, p, u, n, sp) \<longrightarrow>
      sp = baseUnitsPerShare v) \<and>
   calcValuePerShare v x \<noteq> Inl DivisionByZero \<and>
   (calcValuePerShare v x = Inl PreCondition \<longleftrightarrow> totalSupply v = 0) \<and>
   calcUnclaimedRewards X v g \<noteq> Inl PreCondition \<and>
   calcUnclaimedRewards X v g \<noteq> Inl DivisionByZero \<and>
   performCalculations X w v \<noteq> Inl PreCondition"
proof -
  have "totalSupply v = 0 \<longrightarrow> performCalculations X w v = Inr (g, m, p, u, n, sp) \<longrightarrow>
      sp = baseUnitsPerShare v"
    by (auto simp: performCalculations_eq_Inr)
  then show ?thesis
    using performCalculations_no_shares [of v X w]
      calcValuePerShare_not_DivisionByZero [of v x] calcValuePerShare_PreCondition [of v x]
      calcUnclaimedRewards_not_PreCondition [of X v g] calcUnclaimedRewards_not_DivisionByZero [of X v g]
      performCalculations_not_PreCondition [of X w v]
    by blast
qed

lemma example_gav_1:
  "calcGav (exampleEnv s t) (exampleOutside 1000000000000000000) emptyVault = Inr 1000000000000000000"
  by (simp add: example_calcGav emptyVault_def MAX_UINT256_def)

lemma example_performCalculations_empty:
  "performCalculations (exampleEnv s 0) (exampleOutside 1000000000000000000) emptyVault =
     Inr (1000000000000000000, 0, 0, 0, 1000000000000000000, 1000000000000000000)"
  by (simp add: performCalculations_def example_gav_1,
      simp add: calcUnclaimedRewards_def calcNav_def exampleEnv_def emptyVault_def
        initialCalculations_def vault_math_defs)

theorem share_price_without_shares_witness:
  "totalSupply emptyVault = 0 \<and>
   performCalculations (exampleEnv INVESTOR 0) (exampleOutside 1000000000000000000) emptyVault =
     Inr (1000000000000000000, 0, 0, 0, 1000000000000000000, 1000000000000000000) \<and>
   1000000000000000000 = baseUnitsPerShare emptyVault \<and>
   calcValuePerShare emptyVault 1000000000000000000 = Inl PreCondition"
proof -
  have h1: "totalSupply emptyVault = 0"
    by (simp add: emptyVault_def)
  have h2: "performCalculations (exampleEnv INVESTOR 0) (exampleOutside 1000000000000000000) emptyVault =
     Inr (1000000000000000000, 0, 0, 0, 1000000000000000000, 1000000000000000000)"
    by (rule example_performCalculations_empty)
  show ?thesis
    using h1 h2
      share_price_without_shares [of emptyVault "exampleEnv INVESTOR 0"
        "exampleOutside 1000000000000000000" 1000000000000000000 0 0 0 1000000000000000000
        1000000000000000000 1000000000000000000]
    by blast
qed

text \<open>
  C9. The total that \<open>calcUnclaimedRewards\<close> returns is \<open>managementReward +
  performanceReward\<close>. The function itself does not bound it; the bound is enforced where
  the total is used: \<open>calcNav\<close> subtracts it from \<open>gav\<close> with a checked subtraction, so
  \<open>performCalculations\<close> aborts when the total exceeds \<open>gav\<close>, and in every result
  that \<open>performCalculations\<close> returns the total is the sum of the two rewards and is at
  most \<open>gav\<close>.
\<close>

theorem unclaimed_rewards_sum_and_bound:
  "(calcUnclaimedRewards X v g = Inr (m, p, u) \<longrightarrow> u = m + p) \<and>
   (performCalculations X w v = Inr (g', m', p', u', n', sp') \<longrightarrow>
      calcUnclaimedRewards X v g' = Inr (m', p', u') \<and> u' = m' + p' \<and> u' \<le> g' \<and> n' = g' - u') \<and>
   (calcGav X w v = Inr g \<longrightarrow> calcUnclaimedRewards X v g = Inr (m, p, u) \<longrightarrow> g < u \<longrightarrow>
      calcNav g u = Inl MathUnderflow \<and> performCalculations X w v = Inl MathUnderflow)"
proof -
  have a: "calcUnclaimedRewards X v g = Inr (m, p, u) \<longrightarrow> u = m + p"
    by (simp add: calcUnclaimedRewards_eq_Inr)
  have b: "performCalculations X w v = Inr (g', m', p', u', n', sp') \<longrightarrow>
      calcUnclaimedRewards X v g' = Inr (m', p', u') \<and> u' = m' + p' \<and> u' \<le> g' \<and> n' = g' - u'"
    by (auto simp: performCalculations_eq_Inr calcUnclaimedRewards_eq_Inr)
  have c: "calcGav X w v = Inr g \<longrightarrow> calcUnclaimedRewards X v g = Inr (m, p, u) \<longrightarrow> g < u \<longrightarrow>
      calcNav g u = Inl MathUnderflow \<and> performCalculations X w v = Inl MathUnderflow"
    by (simp add: performCalculations_def calcNav_def safe_sub_def)
  from a b c show ?thesis by blast
qed

lemma example_rewards_late:
  "calcUnclaimedRewards (exampleEnv s 2000) exampleVault 2000000000000000000 =
     Inr (4000000000000000000, 100000000000000000, 4100000000000000000)"
  by (simp add: calcUnclaimedRewards_def calcValuePerShare_def exampleEnv_def exampleVault_def
      initialCalculations_def vault_math_defs)

theorem unclaimed_rewards_sum_and_bound_witness:
  "calcGav (exampleEnv MANAGER 2000) (exampleOutside 2000000000000000000) exampleVault
     = Inr 2000000000000000000 \<and>
   calcUnclaimedRewards (exampleEnv MANAGER 2000) exampleVault 2000000000000000000 =
     Inr (4000000000000000000, 100000000000000000, 4100000000000000000) \<and>
   (2000000000000000000 :: nat) < 4100000000000000000 \<and>
   (4100000000000000000 :: nat) = 4000000000000000000 + 100000000000000000 \<and>
   calcNav 2000000000000000000 4100000000000000000 = Inl MathUnderflow \<and>
   performCalculations (exampleEnv MANAGER 2000) (exampleOutside 2000000000000000000) exampleVault
     = Inl MathUnderflow \<and>
   performCalculations (exampleEnv MANAGER 100) (exampleOutside 2000000000000000000) exampleVault =
     Inr (2000000000000000000, 200000000000000000, 100000000000000000, 300000000000000000,
          1700000000000000000, 1700000000000000000) \<and>
   (300000000000000000 :: nat) = 200000000000000000 + 100000000000000000 \<and>
   (300000000000000000 :: nat) \<le> 2000000000000000000"
proof -
  have h1: "calcGav (exampleEnv MANAGER 2000) (exampleOutside 2000000000000000000) exampleVault
     = Inr 2000000000000000000"
    by (rule example_gav_2)
  have h2: "calcUnclaimedRewards (exampleEnv MANAGER 2000) exampleVault 2000000000000000000 =
     Inr (4000000000000000000, 100000000000000000, 4100000000000000000)"
    by (rule example_rewards_late)
  have h3: "(2000000000000000000 :: nat) < 4100000000000000000"
    by simp
  have h4: "performCalculations (exampleEnv MANAGER 100) (exampleOutside 2000000000000000000) exampleVault =
     Inr (2000000000000000000, 200000000000000000, 100000000000000000, 300000000000000000,
          1700000000000000000, 1700000000000000000)"
    by (rule example_performCalculations)
  show ?thesis
    using h1 h2 h3 h4
      unclaimed_rewards_sum_and_bound [of "exampleEnv MANAGER 2000" exampleVault
        2000000000000000000 4000000000000000000 100000000000000000 4100000000000000000
        "exampleOutside 2000000000000000000"]
      unclaimed_rewards_sum_and_bound [of "exampleEnv MANAGER 100" exampleVault
        2000000000000000000 0 0 0 "exampleOutside 2000000000000000000"
        2000000000000000000 200000000000000000 100000000000000000 300000000000000000
        1700000000000000000 1700000000000000000]
    by blast
qed


section \<open>Vault: the share ledger\<close>

lemma sum_address_upd:
  fixes f :: "address \<Rightarrow> nat"
  shows "sum (f(a := x)) UNIV = sum f UNIV - f a + x"
proof -
  have U: "(UNIV :: address set) = insert a (UNIV - {a})" by auto
  have "sum (f(a := x)) (insert a (UNIV - {a})) = x + sum (f(a := x)) (UNIV - {a})"
    by (subst sum.insert) auto
  also have "sum (f(a := x)) (UNIV - {a}) = sum f (UNIV - {a})"
    by (rule sum.cong) auto
  also have "sum f (UNIV - {a}) = sum f UNIV - f a"
    by (simp add: sum_diff1_nat)
  finally show ?thesis using U by simp
qed

lemma balance_le_sum:
  fixes f :: "address \<Rightarrow> nat"
  shows "f a \<le> sum f UNIV"
  by (rule member_le_sum) auto

lemma addShares_eq_Inr:
  "addShares v r n = Inr v' \<longleftrightarrow>
     balances v r + n \<le> MAX_UINT256 \<and> v' = v\<lparr>balances := (balances v)(r := balances v r + n)\<rparr>"
  by (auto simp: addShares_def bindE_eq_Inr safe_add_eq_Inr)

lemma subShares_eq_Inr:
  "subShares v r n = Inr v' \<longleftrightarrow>
     n \<le> balances v r \<and> v' = v\<lparr>balances := (balances v)(r := balances v r - n)\<rparr>"
  by (auto simp: subShares_def bindE_eq_Inr safe_sub_eq_Inr)

lemma createShares_eq_Inr:
  "createShares v r n = Inr v' \<longleftrightarrow>
     totalSupply v + n \<le> MAX_UINT256 \<and> balances v r + n \<le> MAX_UINT256 \<and>
     v' = v\<lparr>totalSupply := totalSupply v + n, balances := (balances v)(r := balances v r + n)\<rparr>"
  by (auto simp: createShares_def bindE_eq_Inr safe_add_eq_Inr addShares_eq_Inr)

lemma annihilateShares_eq_Inr:
  "annihilateShares v r n = Inr v' \<longleftrightarrow>
     n \<le> totalSupply v \<and> n \<le> balances v r \<and>
     v' = v\<lparr>totalSupply := totalSupply v - n, balances := (balances v)(r := balances v r - n)\<rparr>"
  by (auto simp: annihilateShares_def bindE_eq_Inr safe_sub_eq_Inr subShares_eq_Inr)

lemma sumBalances_upd:
  assumes "balances v' = (balances v)(r := x)"
  shows "sumBalances v' = sumBalances v - balances v r + x"
  unfolding sumBalances_def assms by (rule sum_address_upd)

lemma balance_le_sumBalances: "balances v r \<le> sumBalances v"
  unfolding sumBalances_def by (rule balance_le_sum)

text \<open>
  \<open>createShares\<close> and \<open>annihilateShares\<close> change \<open>totalSupply\<close> and one balance by
  the same number, so they keep the sum of the balances equal to \<open>totalSupply\<close>; so do
  \<open>subscribe\<close>, \<open>redeem\<close> and \<open>redeemUsingSlice\<close>, which change the ledger through them only.
\<close>

lemma createShares_conserves:
  assumes "sumBalances v = totalSupply v" and "createShares v r n = Inr v'"
  shows "sumBalances v' = totalSupply v'"
proof -
  from assms(2) have b: "balances v' = (balances v)(r := balances v r + n)"
    and t: "totalSupply v' = totalSupply v + n"
    by (auto simp: createShares_eq_Inr)
  have "balances v r \<le> sumBalances v" by (rule balance_le_sumBalances)
  with sumBalances_upd [OF b] t assms(1) show ?thesis by simp
qed

lemma annihilateShares_conserves:
  assumes "sumBalances v = totalSupply v" and "annihilateShares v r n = Inr v'"
  shows "sumBalances v' = totalSupply v'"
proof -
  from assms(2) have b: "balances v' = (balances v)(r := balances v r - n)"
    and t: "totalSupply v' = totalSupply v - n" and n: "n \<le> balances v r"
    by (auto simp: annihilateShares_eq_Inr)
  have "balances v r \<le> sumBalances v" by (rule balance_le_sumBalances)
  with sumBalances_upd [OF b] t n assms(1) show ?thesis by simp
qed

lemma allocateSlice_conserves:
  assumes "sumBalances v = totalSupply v" and "allocateSlice X w v n = Inr (v', w')"
  shows "sumBalances v' = totalSupply v'"
  using assms by (auto simp: allocateSlice_def bindE_eq_Inr dest: createShares_conserves)

lemma separateSlice_conserves:
  assumes "sumBalances v = totalSupply v" and "separateSlice X w v n = Inr (v', w')"
  shows "sumBalances v' = totalSupply v'"
  using assms
  by (auto simp: separateSlice_def bindE_eq_Inr split: if_splits dest: annihilateShares_conserves)

lemma subscribe_conserves:
  assumes "sumBalances v = totalSupply v" and "subscribe X w v n offered = Inr (v', w')"
  shows "sumBalances v' = totalSupply v'"
  using assms
  by (auto simp: subscribe_def subscribeUsingSlice_def bindE_eq_Inr Let_def
      split: if_splits prod.splits dest: createShares_conserves allocateSlice_conserves)

lemma redeem_conserves:
  assumes "sumBalances v = totalSupply v" and "redeem X w v n requested = Inr (v', w')"
  shows "sumBalances v' = totalSupply v'"
  using assms
  by (auto simp: redeem_def bindE_eq_Inr Let_def
      split: if_splits prod.splits dest: annihilateShares_conserves)

lemma redeemUsingSlice_conserves:
  assumes "sumBalances v = totalSupply v" and "redeemUsingSlice X w v n = Inr (v', w')"
  shows "sumBalances v' = totalSupply v'"
  using assms
  by (auto simp: redeemUsingSlice_def split: if_splits dest: separateSlice_conserves)

text \<open>
  \<open>convertUnclaimedRewards\<close> calls \<open>addShares\<close>, not \<open>createShares\<close>: the owner's balance
  grows by \<open>totalSupply * unclaimedRewards / gav\<close> and \<open>totalSupply\<close> stays as it is.
\<close>

lemma convertUnclaimedRewards_eq_Inr:
  "convertUnclaimedRewards X w v = Inr v' \<longleftrightarrow>
     msg_sender X = owner v \<and>
     (\<exists>g m p u n sp. performCalculations X w v = Inr (g, m, p, u, n, sp) \<and> 0 < g \<and>
        totalSupply v * u \<le> MAX_UINT256 \<and>
        balances v (owner v) + totalSupply v * u div g \<le> MAX_UINT256 \<and>
        v' = v\<lparr>balances := (balances v)(owner v := balances v (owner v) + totalSupply v * u div g),
               atLastPayout :=
                 \<lparr>gav = g, managementReward = m, performanceReward = p, unclaimedRewards = u,
                  nav = n, sharePrice = sp, Calculations.totalSupply = totalSupply v,
                  timestamp = now X\<rparr>\<rparr>)"
  by (auto simp: convertUnclaimedRewards_def isOwner_def isPastZero_def bindE_eq_Inr
      safe_mul_eq_Inr safe_div_eq_Inr addShares_eq_Inr split: if_splits)

lemma convertUnclaimedRewards_ledger:
  assumes "convertUnclaimedRewards X w v = Inr v'"
    and "performCalculations X w v = Inr (g, m, p, u, n, sp)"
  shows "totalSupply v' = totalSupply v"
    and "balances v' (owner v) = balances v (owner v) + totalSupply v * u div g"
    and "sumBalances v' = sumBalances v + totalSupply v * u div g"
proof -
  from assms have b: "balances v' =
      (balances v)(owner v := balances v (owner v) + totalSupply v * u div g)"
    by (auto simp: convertUnclaimedRewards_eq_Inr)
  from assms show "totalSupply v' = totalSupply v"
    by (auto simp: convertUnclaimedRewards_eq_Inr)
  from b show "balances v' (owner v) = balances v (owner v) + totalSupply v * u div g"
    by simp
  have "balances v (owner v) \<le> sumBalances v" by (rule balance_le_sumBalances)
  with sumBalances_upd [OF b] show "sumBalances v' = sumBalances v + totalSupply v * u div g"
    by simp
qed

lemma example_sumBalances: "sumBalances exampleVault = 1000000000000000000"
proof -
  have "sum ((\<lambda>a. 0 :: nat)(INVESTOR := 1000000000000000000)) (UNIV :: address set)
          = 1000000000000000000"
    by (simp only: sum_address_upd) simp
  then show ?thesis by (simp add: sumBalances_def exampleVault_def)
qed

lemma example_convertUnclaimedRewards:
  "convertUnclaimedRewards (exampleEnv MANAGER 100) (exampleOutside 2000000000000000000) exampleVault =
     Inr (exampleVault
       \<lparr>balances := (balances exampleVault)(MANAGER := 150000000000000000),
        atLastPayout :=
          \<lparr>gav = 2000000000000000000, managementReward = 200000000000000000,
           performanceReward = 100000000000000000, unclaimedRewards = 300000000000000000,
           nav = 1700000000000000000, sharePrice = 1700000000000000000,
           Calculations.totalSupply = 1000000000000000000, timestamp = 100\<rparr>\<rparr>)"
  by (simp add: convertUnclaimedRewards_def example_performCalculations,
      simp add: isOwner_def addShares_def exampleEnv_def exampleVault_def vault_math_defs
        address_defs)

text \<open>
  C2. The sum of all share balances equals \<open>totalSupply\<close> after every operation that creates
  or destroys shares. The code keeps this in \<open>subscribe\<close>, \<open>redeem\<close> and
  \<open>redeemUsingSlice\<close> (lemmas above) and breaks it in \<open>convertUnclaimedRewards\<close>: in the
  example fund, where the balances sum to the \<open>totalSupply\<close> of 1 share, the manager settles
  the fees 100 time units after the snapshot; afterwards the balances sum to 1.15 shares and
  \<open>totalSupply\<close> is still 1 share.
\<close>

theorem fee_settlement_breaks_conservation:
  "sumBalances exampleVault = totalSupply exampleVault \<and>
   (case convertUnclaimedRewards (exampleEnv MANAGER 100) (exampleOutside 2000000000000000000)
           exampleVault of
      Inl e \<Rightarrow> False
    | Inr v' \<Rightarrow> sumBalances v' = 1150000000000000000 \<and> totalSupply v' = 1000000000000000000)"
proof -
  have a: "sumBalances exampleVault = totalSupply exampleVault"
    by (simp add: example_sumBalances) (simp add: exampleVault_def)
  have b: "balances (exampleVault
       \<lparr>balances := (balances exampleVault)(MANAGER := 150000000000000000),
        atLastPayout :=
          \<lparr>gav = 2000000000000000000, managementReward = 200000000000000000,
           performanceReward = 100000000000000000, unclaimedRewards = 300000000000000000,
           nav = 1700000000000000000, sharePrice = 1700000000000000000,
           Calculations.totalSupply = 1000000000000000000, timestamp = 100\<rparr>\<rparr>)
       = (balances exampleVault)(MANAGER := 150000000000000000)"
    by simp
  have c: "balances exampleVault MANAGER = 0"
    by (simp add: exampleVault_def address_defs)
  have d: "totalSupply exampleVault = 1000000000000000000"
    by (simp add: exampleVault_def)
  show ?thesis
    using a sumBalances_upd [OF b] c d
    by (simp add: example_convertUnclaimedRewards example_sumBalances)
qed

text \<open>
  C4. Fee settlement mints \<open>totalSupply * unclaimedRewards / gav\<close> shares, rounded down, to
  the manager, and overwrites the snapshot. In the example fund that number is 0.15 shares;
  after \<open>convertUnclaimedRewards\<close> the manager's balance is 0.15 shares and the snapshot is
  the freshly computed one, but \<open>totalSupply\<close> has not increased: it is 1 share as before,
  in the storage and in the snapshot.
\<close>

theorem fee_settlement_leaves_totalSupply:
  "totalSupply exampleVault = 1000000000000000000 \<and>
   balances exampleVault MANAGER = 0 \<and>
   performCalculations (exampleEnv MANAGER 100) (exampleOutside 2000000000000000000) exampleVault =
     Inr (2000000000000000000, 200000000000000000, 100000000000000000, 300000000000000000,
          1700000000000000000, 1700000000000000000) \<and>
   (1000000000000000000 :: nat) * 300000000000000000 div 2000000000000000000 = 150000000000000000 \<and>
   (case convertUnclaimedRewards (exampleEnv MANAGER 100) (exampleOutside 2000000000000000000)
           exampleVault of
      Inl e \<Rightarrow> False
    | Inr v' \<Rightarrow>
        balances v' MANAGER = 150000000000000000 \<and>
        totalSupply v' = 1000000000000000000 \<and>
        atLastPayout v' =
          \<lparr>gav = 2000000000000000000, managementReward = 200000000000000000,
           performanceReward = 100000000000000000, unclaimedRewards = 300000000000000000,
           nav = 1700000000000000000, sharePrice = 1700000000000000000,
           Calculations.totalSupply = 1000000000000000000, timestamp = 100\<rparr>)"
  by (simp add: example_convertUnclaimedRewards example_performCalculations,
      simp add: exampleVault_def address_defs)


section \<open>Vault: order of burn and transfer\<close>

text \<open>
  The example token records, in \<open>seen\<close>, the investor's share balance that its code reads
  from the Vault while the transfer runs.
\<close>

lemma example_redeem:
  "redeem (exampleEnv INVESTOR 100) (exampleOutside 2000000000000000000) exampleVault
     100000000000000000 0 =
   Inr (exampleVault\<lparr>totalSupply := 900000000000000000,
          balances := (balances exampleVault)(INVESTOR := 900000000000000000)\<rparr>,
        (moveTokens (exampleOutside 2000000000000000000) WETH VAULT INVESTOR 170000000000000000)
          \<lparr>seen := [1000000000000000000]\<rparr>)"
  by (simp add: redeem_def example_priceForNumShares,
      simp add: exampleEnv_def exampleVault_def exampleOutside_def annihilateShares_def
        subShares_def vault_math_defs address_defs)

lemma example_redeemUsingSlice:
  "redeemUsingSlice (exampleEnv INVESTOR 100) (exampleOutside 2000000000000000000) exampleVault
     100000000000000000 =
   Inr (exampleVault\<lparr>totalSupply := 900000000000000000,
          balances := (balances exampleVault)(INVESTOR := 900000000000000000)\<rparr>,
        (moveTokens (exampleOutside 2000000000000000000) WETH VAULT INVESTOR 200000000000000000)
          \<lparr>seen := [900000000000000000]\<rparr>)"
  by (simp add: redeemUsingSlice_def separateSlice_def balancesOfHolderAtLeast_def
        exampleEnv_def exampleVault_def exampleOutside_def annihilateShares_def
        subShares_def vault_math_defs address_defs initialCalculations_def Let_def)

text \<open>
  C1. In every redeem path the shares are burned before the outbound transfer, so code
  reentered from the transfer reads the decremented balance. The investor of the example
  fund holds 1 share and redeems 0.1 share. In \<open>redeemUsingSlice\<close> the token's code reads
  the balance 0.9; in \<open>redeem\<close> it reads 1, the balance before the burn, although the
  balance is 0.9 when \<open>redeem\<close> returns.
\<close>

theorem redeem_transfers_before_burning:
  "balances exampleVault INVESTOR = 1000000000000000000 \<and>
   (case redeem (exampleEnv INVESTOR 100) (exampleOutside 2000000000000000000) exampleVault
           100000000000000000 0 of
      Inl e \<Rightarrow> False
    | Inr (v', w') \<Rightarrow>
        seen w' = [1000000000000000000] \<and> balances v' INVESTOR = 900000000000000000) \<and>
   (case redeemUsingSlice (exampleEnv INVESTOR 100) (exampleOutside 2000000000000000000) exampleVault
           100000000000000000 of
      Inl e \<Rightarrow> False
    | Inr (v', w') \<Rightarrow>
        seen w' = [900000000000000000] \<and> balances v' INVESTOR = 900000000000000000)"
  by (simp add: example_redeem example_redeemUsingSlice moveTokens_def Let_def,
      simp add: exampleVault_def)

text \<open>
  In general: \<open>redeem\<close> hands the token the storage it was entered with and burns
  afterwards; \<open>separateSlice\<close> burns first and hands every transfer of its loop the
  storage after the burn.
\<close>

lemma redeem_transfer_reads_entry_storage:
  assumes "redeem X w v n requested = Inr (v', w')"
  shows "\<exists>actualValue. priceForNumShares X w v n = Inr actualValue \<and>
           transfer X w v (referenceAsset v) (msg_sender X) actualValue = (True, w') \<and>
           annihilateShares v (msg_sender X) n = Inr v'"
  using assms
  by (auto simp: redeem_def bindE_eq_Inr Let_def split: if_splits prod.splits)

lemma separateSlice_transfers_read_burned_storage:
  assumes "separateSlice X w v n = Inr (v', w')"
  shows "annihilateShares v (msg_sender X) n = Inr v' \<and>
         separateSliceLoop X v' n (totalSupply v - unclaimedRewards (atLastPayout v)) (universe X) w
           = Inr w'"
  using assms
  by (auto simp: separateSlice_def bindE_eq_Inr safe_sub_eq_Inr split: if_splits)

end
